theory Spec2Isabelle
  imports Complex_Main "HOL-Library.Sublist"
begin

section \<open>Python values\<close>

text \<open>
  A Python \<open>str\<close> is a sequence of Unicode code points, so it is modelled as a list of
  natural numbers. An ASCII literal is written \<open>ascii ''...''\<close>; a literal with
  Devanagari text is written as the list of its code points. \<open>x in s\<close> on strings is
  \<^const>\<open>sublist\<close>.
\<close>

type_synonym pystr = "nat list"

abbreviation ascii :: "string \<Rightarrow> pystr" where
  "ascii s \<equiv> map of_char s"

text \<open>
  \<open>str.isspace\<close> for one code point: the white-space table of CPython
  (\<open>_PyUnicode_IsWhitespace\<close>), used by \<open>str.strip()\<close> and \<open>str.split()\<close>.
\<close>

definition isspace :: "nat \<Rightarrow> bool" where
  "isspace c = (c \<in> set [9, 10, 11, 12, 13, 28, 29, 30, 31, 32, 133, 160, 5760,
     8192, 8193, 8194, 8195, 8196, 8197, 8198, 8199, 8200, 8201, 8202,
     8232, 8233, 8239, 8287, 12288])"

definition strip :: "pystr \<Rightarrow> pystr" where
  "strip s = rev (dropWhile isspace (rev (dropWhile isspace s)))"

text \<open>\<open>s.split(sep)\<close> for a separator of one code point: never the empty list.\<close>

fun split_on :: "nat \<Rightarrow> pystr \<Rightarrow> pystr list" where
  "split_on sep [] = [[]]"
| "split_on sep (c # cs) =
     (if c = sep then [] # split_on sep cs
      else (case split_on sep cs of p # ps \<Rightarrow> (c # p) # ps | [] \<Rightarrow> [[c]]))"

text \<open>\<open>s.split()\<close>: the maximal runs of code points that are not white space.\<close>

fun split_ws :: "pystr \<Rightarrow> pystr list" where
  "split_ws [] = []"
| "split_ws (c # cs) =
     (if isspace c then split_ws cs
      else if cs = [] \<or> isspace (hd cs) then [c] # split_ws cs
      else (case split_ws cs of p # ps \<Rightarrow> (c # p) # ps | [] \<Rightarrow> [[c]]))"

text \<open>\<open>sep.join(parts)\<close>.\<close>

fun join :: "pystr \<Rightarrow> pystr list \<Rightarrow> pystr" where
  "join sep [] = []"
| "join sep [p] = p"
| "join sep (p # q # ps) = p @ sep @ join sep (q # ps)"

text \<open>
  \<open>s.replace(old, new)\<close> for a non-empty \<open>old\<close>: the occurrences are replaced from the
  left and do not overlap; \<open>k\<close> counts the code points of a match still to be skipped.
\<close>

fun replace_from :: "pystr \<Rightarrow> pystr \<Rightarrow> nat \<Rightarrow> pystr \<Rightarrow> pystr" where
  "replace_from old new k [] = []"
| "replace_from old new k (c # cs) =
     (if 0 < k then replace_from old new (k - 1) cs
      else if old \<noteq> [] \<and> prefix old (c # cs) then new @ replace_from old new (length old - 1) cs
      else c # replace_from old new 0 cs)"

definition replace :: "pystr \<Rightarrow> pystr \<Rightarrow> pystr \<Rightarrow> pystr" where
  "replace old new s = replace_from old new 0 s"

text \<open>\<open>str(n)\<close> for a non-negative integer: its decimal digits.\<close>

fun str_nat :: "nat \<Rightarrow> pystr" where
  "str_nat n = (if n < 10 then [48 + n] else str_nat (n div 10) @ [48 + n mod 10])"

declare str_nat.simps [simp del]

text \<open>
  Truth values of Python objects: \<open>None\<close> and the empty string are false, and so are
  \<open>None\<close> and the float \<open>0.0\<close>. A float is modelled as a real number; the code only
  stores coordinates, passes them on and tests them for truth.
\<close>

definition truthy_str :: "pystr option \<Rightarrow> bool" where
  "truthy_str x = (case x of None \<Rightarrow> False | Some s \<Rightarrow> s \<noteq> [])"

text \<open>An optional string inside an f-string.\<close>

definition format_str :: "pystr option \<Rightarrow> pystr" where
  "format_str x = (case x of None \<Rightarrow> ascii ''None'' | Some s \<Rightarrow> s)"

definition truthy_float :: "real option \<Rightarrow> bool" where
  "truthy_float x = (case x of None \<Rightarrow> False | Some r \<Rightarrow> r \<noteq> 0)"

section \<open>The texts of the replies\<close>

text \<open>
  Every string literal and f-string of \<open>app.py\<close> that reaches a reply, code point by code
  point, in the order of the source. The suffix \<open>_hi\<close> marks the Hindi text and \<open>_en\<close>
  the English one; the parameters are the values the f-string interpolates.
\<close>

definition weather_error_hi :: pystr where
  "weather_error_hi = [2350, 2380, 2360, 2350, 32, 2325, 2368, 32, 2332, 2366, 2344, 2325,
     2366, 2352, 2368, 32, 2344, 2361, 2368, 2306, 32, 2350, 2367, 2354, 32, 2360, 2325, 2368,
     2404, 32, 2348, 2366, 2361, 2352, 2368, 32, 2360, 2375, 2357, 2366, 32, 2350, 2375, 2306,
     32, 2340, 2381, 2352, 2369, 2335, 2367, 2404]"

definition weather_error_en :: pystr where
  "weather_error_en = ascii ''Could not retrieve weather information. External service error.''"

definition soil_error_hi :: pystr where
  "soil_error_hi = [2350, 2367, 2335, 2381, 2335, 2368, 32, 2325, 2368, 32, 2332, 2366, 2344,
     2325, 2366, 2352, 2368, 32, 2344, 2361, 2368, 2306, 32, 2350, 2367, 2354, 32, 2360, 2325,
     2368, 2404, 32, 2348, 2366, 2361, 2352, 2368, 32, 2360, 2375, 2357, 2366, 32, 2350, 2375,
     2306, 32, 2340, 2381, 2352, 2369, 2335, 2367, 2404]"

definition soil_error_en :: pystr where
  "soil_error_en = ascii ''Could not retrieve soil data. External service error.''"

definition hindi_wheat :: pystr where
  "hindi_wheat = [2327, 2375, 2361, 2370, 2306]"

definition hindi_rice :: pystr where
  "hindi_rice = [2343, 2366, 2344]"

definition hindi_corn :: pystr where
  "hindi_corn = [2350, 2325, 2381, 2325, 2366]"

definition market_price_hi :: "pystr \<Rightarrow> pystr \<Rightarrow> pystr" where
  "market_price_hi hindi_crop price = [2348, 2366, 2332, 2366, 2352, 32, 2350, 2375, 2306, 32,
     2310, 2332, 32, 42, 42] @ hindi_crop @ [42, 42, 32, 2325, 2366, 32, 2349, 2366, 2357, 32,
     8377] @ price @ [32, 2346, 2381, 2352, 2340, 2367, 32, 2325, 2381, 2357, 2367, 2306, 2335,
     2354, 32, 2361, 2376, 32, 40, 79, 71, 68, 32, 65, 80, 73, 32, 115, 101, 116, 117, 112, 32,
     112, 101, 110, 100, 105, 110, 103, 41, 46]"

definition market_price_en :: "pystr \<Rightarrow> pystr \<Rightarrow> pystr" where
  "market_price_en crop_name price = ascii ''The current market price for **'' @ crop_name
     @ [42, 42, 32, 105, 115, 32, 8377] @ price
     @ ascii '' per quintal (OGD API setup pending).''"

definition market_unavailable_hi :: pystr where
  "market_unavailable_hi = [2348, 2366, 2332, 2366, 2352, 32, 2349, 2366, 2357, 32, 2344,
     2361, 2368, 2306, 32, 2350, 2367, 2354, 32, 2360, 2325, 2366, 2404, 32, 40, 79, 71, 68, 32,
     65, 80, 73, 32, 115, 101, 116, 117, 112, 32, 112, 101, 110, 100, 105, 110, 103, 41]"

definition market_unavailable_en :: pystr where
  "market_unavailable_en = ascii ''Could not retrieve market price. (OGD API setup pending)''"

definition ndvi_advice_hi :: "pystr \<Rightarrow> pystr" where
  "ndvi_advice_hi crop_name = [2360, 2375, 2335, 2375, 2354, 2366, 2311, 2335, 32, 2337, 2375,
     2335, 2366, 32, 40, 83, 101, 110, 116, 105, 110, 101, 108, 45, 50, 32, 78, 68, 86, 73, 41,
     32, 2325, 2375, 32, 2309, 2344, 2369, 2360, 2366, 2352, 44, 32, 2310, 2346, 2325, 2368, 32,
     42, 42] @ crop_name @ [42, 42, 32, 2347, 2360, 2354, 32, 2325, 2366, 32, 2360, 2381, 2357,
     2366, 2360, 2381, 2341, 2381, 2351, 32, 2360, 2366, 2350, 2366, 2344, 2381, 2351, 32, 2361,
     2376, 2404, 32, 42, 42, 2309, 2327, 2354, 2375, 32, 2360, 2346, 2381, 2340, 2366, 2361, 32,
     2344, 2366, 2311, 2335, 2381, 2352, 2379, 2332, 2344, 32, 2313, 2352, 2381, 2357, 2352,
     2325, 32, 2337, 2366, 2354, 2375, 2306, 42, 42, 2404]"

definition ndvi_advice_en :: "pystr \<Rightarrow> pystr" where
  "ndvi_advice_en crop_name = ascii ''Satellite data (Sentinel-2 NDVI) shows your **''
     @ crop_name @ ascii ''** crop health is normal. **Apply Nitrogen fertilizer next week**.''"

definition welcome_text_hi :: pystr where
  "welcome_text_hi = [2344, 2350, 2360, 2381, 2340, 2375, 33, 32, 2350, 2376, 2306, 32, 2310,
     2346, 2325, 2368, 32, 2325, 2371, 2359, 2367, 32, 2360, 2354, 2366, 2361, 2325, 2366, 2352,
     44, 32, 39, 2325, 2368, 2358, 2366, 39, 32, 2361, 2370, 2305, 2404, 32, 2325, 2371, 2346,
     2351, 2366, 32, 2309, 2346, 2344, 2366, 32, 2344, 2366, 2350, 32, 2324, 2352, 32, 2327,
     2366, 2305, 2357, 47, 2346, 2340, 2366, 32, 2348, 2340, 2366, 2319, 2306, 2404]"

definition welcome_text_en :: pystr where
  "welcome_text_en = ascii ''Hello! I am your agricultural advisor, '' @ [39]
     @ ascii ''Kisha'' @ [39] @ ascii ''. Please tell me your name and village/address.''"

definition recap_hi :: "pystr \<Rightarrow> pystr \<Rightarrow> pystr" where
  "recap_hi farmer_name summary = [2344, 2350, 2360, 2381, 2340, 2375, 44, 32] @ farmer_name
     @ [33, 32, 2346, 2367, 2331, 2354, 2368, 32, 2348, 2366, 2352, 32, 2310, 2346, 2325, 2379,
     32, 39] @ summary @ [39, 32, 2325, 2368, 32, 2360, 2350, 2360, 2381, 2351, 2366, 32, 2341,
     2368, 2404, 32, 2325, 2381, 2351, 2366, 32, 2357, 2361, 32, 2361, 2354, 32, 2361, 2379, 32,
     2327, 2312, 32, 2361, 2376, 44, 32, 2351, 2366, 32, 2310, 2346, 32, 2325, 2367, 2360, 2368,
     32, 2344, 2312, 32, 2360, 2350, 2360, 2381, 2351, 2366, 32, 2325, 2366, 32, 2360, 2366,
     2350, 2344, 2366, 32, 2325, 2352, 32, 2352, 2361, 2375, 32, 2361, 2376, 2306, 63]"

definition recap_en :: "pystr \<Rightarrow> pystr \<Rightarrow> pystr" where
  "recap_en farmer_name summary = ascii ''Welcome back, '' @ farmer_name
     @ ascii ''! Last time you faced an issue with '' @ [39] @ summary @ [39]
     @ ascii ''. Has that been solved, or are you facing a new problem?''"

definition welcome_back_hi :: "pystr \<Rightarrow> pystr" where
  "welcome_back_hi farmer_name = [2310, 2346, 2325, 2366, 32, 2347, 2367, 2352, 32, 2360,
     2375, 32, 2360, 2381, 2357, 2366, 2327, 2340, 32, 2361, 2376, 44, 32] @ farmer_name @ [33,
     32, 2325, 2371, 2346, 2351, 2366, 32, 2309, 2346, 2344, 2368, 32, 2350, 2369, 2326, 2381,
     2351, 32, 2325, 2371, 2359, 2367, 32, 2360, 2350, 2360, 2381, 2351, 2366, 32, 2348, 2340,
     2366, 2319, 2306, 2404]"

definition welcome_back_en :: "pystr \<Rightarrow> pystr" where
  "welcome_back_en farmer_name = ascii ''Welcome back, '' @ farmer_name
     @ ascii ''! Please tell me your main agricultural problem.''"

definition thank_you_hi :: "pystr \<Rightarrow> pystr" where
  "thank_you_hi nm = [2343, 2344, 2381, 2351, 2357, 2366, 2342, 32] @ nm @ [33, 32, 2309,
     2348, 32, 2325, 2371, 2346, 2351, 2366, 32, 2309, 2346, 2344, 2368, 32, 2350, 2369, 2326,
     2381, 2351, 32, 2325, 2371, 2359, 2367, 32, 2360, 2350, 2360, 2381, 2351, 2366, 32, 2348,
     2340, 2366, 2319, 2306, 12290]"

definition thank_you_en :: "pystr \<Rightarrow> pystr" where
  "thank_you_en nm = ascii ''Thank you '' @ nm
     @ ascii ''! Now, please tell me your main agricultural problem.''"

definition geocode_failed_hi :: pystr where
  "geocode_failed_hi = [2325, 2381, 2359, 2350, 2366, 32, 2325, 2352, 2375, 2306, 44, 32,
     2361, 2350, 32, 2310, 2346, 2325, 2375, 32, 2346, 2340, 2375, 32, 2325, 2375, 32, 2354,
     2367, 2319, 32, 71, 80, 83, 32, 2360, 2381, 2341, 2366, 2344, 32, 2344, 2361, 2368, 2306,
     32, 2338, 2370, 2306, 2338, 32, 2346, 2366, 2319, 2404, 32, 2325, 2371, 2346, 2351, 2366,
     32, 2309, 2346, 2344, 2366, 32, 2346, 2340, 2366, 32, 2341, 2379, 2337, 2364, 2366, 32,
     2360, 2381, 2346, 2359, 2381, 2335, 32, 2325, 2352, 2325, 2375, 32, 2342, 2375, 2306, 2404]"

definition geocode_failed_en :: pystr where
  "geocode_failed_en = ascii ''Sorry, we could not find the GPS location for your address. Please provide a slightly clearer address.''"

definition farmer_not_found_hi :: pystr where
  "farmer_not_found_hi = [2310, 2306, 2340, 2352, 2367, 2325, 32, 2340, 2381, 2352, 2369,
     2335, 2367, 58, 32, 2325, 2367, 2360, 2366, 2344, 32, 2352, 2367, 2325, 2377, 2352, 2381,
     2337, 32, 2344, 2361, 2368, 2306, 32, 2350, 2367, 2354, 2366, 2404]"

definition farmer_not_found_en :: pystr where
  "farmer_not_found_en = ascii ''Internal error: Farmer record not found.''"

definition provide_address_hi :: pystr where
  "provide_address_hi = [2325, 2371, 2346, 2351, 2366, 32, 2309, 2346, 2344, 2366, 32, 2346,
     2340, 2366, 32, 2360, 2361, 2368, 32, 2360, 2375, 32, 2348, 2340, 2366, 2319, 2306, 32,
     2340, 2366, 2325, 2367, 32, 2350, 2376, 2306, 32, 2310, 2346, 2325, 2375, 32, 2326, 2375,
     2340, 32, 2325, 2375, 32, 2354, 2367, 2319, 32, 2360, 2335, 2368, 2325, 32, 2332, 2366,
     2344, 2325, 2366, 2352, 2368, 32, 2342, 2375, 32, 2360, 2325, 2370, 2306, 2404]"

definition provide_address_en :: pystr where
  "provide_address_en = ascii ''Please provide your address so I can retrieve location-based data.''"

definition advice_problem_hi :: "pystr \<Rightarrow> pystr" where
  "advice_problem_hi problem = [42, 42, 2360, 2350, 2360, 2381, 2351, 2366, 58, 42, 42, 32]
     @ problem @ [10]"

definition advice_weather_hi :: "pystr \<Rightarrow> pystr" where
  "advice_weather_hi weather_info = [42, 42, 2350, 2380, 2360, 2350, 32, 2325, 2368, 32, 2332,
     2366, 2344, 2325, 2366, 2352, 2368, 58, 42, 42, 32] @ weather_info @ [10]"

definition advice_soil_hi :: "pystr \<Rightarrow> pystr" where
  "advice_soil_hi soil_info = [42, 42, 2350, 2367, 2335, 2381, 2335, 2368, 32, 2325, 2368, 32,
     2360, 2354, 2366, 2361, 58, 42, 42, 32] @ soil_info @ [10]"

definition advice_ndvi_hi :: "pystr \<Rightarrow> pystr" where
  "advice_ndvi_hi ndvi = [42, 42, 2347, 2360, 2354, 32, 2360, 2381, 2357, 2366, 2360, 2381,
     2341, 2381, 2351, 32, 2352, 2367, 2346, 2379, 2352, 2381, 2335, 58, 42, 42, 32] @ ndvi
     @ [10, 10]"

definition advice_hint_hi :: pystr where
  "advice_hint_hi = [2348, 2366, 2332, 2366, 2352, 32, 2349, 2366, 2357, 32, 2332, 2366, 2344,
     2344, 2375, 32, 2325, 2375, 32, 2354, 2367, 2319, 32, 39, 2348, 2366, 2332, 2366, 2352, 32,
     2349, 2366, 2357, 39, 32, 2335, 2366, 2311, 2346, 32, 2325, 2352, 2375, 2306, 2404]"

definition advice_problem_en :: "pystr \<Rightarrow> pystr" where
  "advice_problem_en problem = ascii ''**Problem:** '' @ problem @ [10]"

definition advice_weather_en :: "pystr \<Rightarrow> pystr" where
  "advice_weather_en weather_info = ascii ''**Weather Info:** '' @ weather_info @ [10]"

definition advice_soil_en :: "pystr \<Rightarrow> pystr" where
  "advice_soil_en soil_info = ascii ''**Soil Advice:** '' @ soil_info @ [10]"

definition advice_ndvi_en :: "pystr \<Rightarrow> pystr" where
  "advice_ndvi_en ndvi = ascii ''**Crop Health Report:** '' @ ndvi @ [10, 10]"

definition advice_hint_en :: pystr where
  "advice_hint_en = ascii ''To know market prices, type '' @ [39] @ ascii ''market price''
     @ [39] @ ascii ''.''"

definition kw_bazaar :: pystr where
  "kw_bazaar = [2348, 2366, 2332, 2366, 2352]"

definition kw_keemat :: pystr where
  "kw_keemat = [2325, 2368, 2350, 2340]"

definition kw_mausam :: pystr where
  "kw_mausam = [2350, 2380, 2360, 2350]"

definition kw_taapmaan :: pystr where
  "kw_taapmaan = [2340, 2366, 2346, 2350, 2366, 2344]"

definition kw_mitti :: pystr where
  "kw_mitti = [2350, 2367, 2335, 2381, 2335, 2368]"

definition kw_dhanyavaad :: pystr where
  "kw_dhanyavaad = [2343, 2344, 2381, 2351, 2357, 2366, 2342]"

definition thanks_hi :: pystr where
  "thanks_hi = [2310, 2346, 2325, 2368, 32, 2350, 2342, 2342, 32, 2325, 2352, 2325, 2375, 32,
     2326, 2369, 2358, 2368, 32, 2361, 2369, 2312, 2404, 32, 2327, 2381, 2352, 2366, 2350, 32,
     2357, 2367, 2325, 2366, 2360, 32, 2325, 2366, 32, 2313, 2346, 2351, 2379, 2327, 32, 2325,
     2352, 2344, 2375, 32, 2325, 2375, 32, 2354, 2367, 2319, 32, 2343, 2344, 2381, 2351, 2357,
     2366, 2342, 33, 32, 2332, 2354, 2381, 2342, 32, 2361, 2368, 32, 2347, 2367, 2352, 32, 2350,
     2367, 2354, 2340, 2375, 32, 2361, 2376, 2306, 2404]"

definition thanks_en :: pystr where
  "thanks_en = ascii ''Happy to help you. Thank you for using Gram Vikas! See you soon.''"

definition fallback_hi :: pystr where
  "fallback_hi = [2350, 2376, 2306, 32, 2309, 2349, 2368, 32, 2325, 2375, 2357, 2354, 32,
     2350, 2380, 2360, 2350, 44, 32, 2350, 2367, 2335, 2381, 2335, 2368, 32, 2351, 2366, 32,
     2348, 2366, 2332, 2366, 2352, 32, 2349, 2366, 2357, 32, 2325, 2368, 32, 2332, 2366, 2344,
     2325, 2366, 2352, 2368, 32, 2342, 2375, 32, 2360, 2325, 2340, 2366, 32, 2361, 2370, 2305,
     2404, 32, 2325, 2379, 2312, 32, 2324, 2352, 32, 2360, 2357, 2366, 2354, 63]"

definition fallback_en :: pystr where
  "fallback_en = ascii ''I can currently provide information on weather, soil, or market prices. Any other questions?''"

section \<open>The world outside the program\<close>

text \<open>
  What one request observes of the services it calls and of the Python library:
  \<^item> \<open>geolocator_geocode\<close>: the coordinates of the location Nominatim finds for an address,
    \<open>None\<close> when it finds none or raises;
  \<^item> \<open>open_meteo\<close> and \<open>soilgrids\<close>: the outcome of the \<open>try\<close> block of a provider for
    given coordinates and language: a \<open>requests.exceptions.RequestException\<close>; another
    exception (the \<open>AttributeError\<close>, \<open>IndexError\<close> or \<open>TypeError\<close> that \<open>data.get\<close>,
    \<open>current.get\<close>, \<open>[0]\<close>, \<open>mean_value / 10\<close> or a format specification raise on a
    response of status 2xx whose body has another shape than the one the provider reads);
    or the sentence the provider formats;
  \<^item> \<open>gtts_saves\<close>: whether gTTS renders the text in the language and saves the file;
  \<^item> \<open>str_lower\<close> and \<open>str_title\<close>: \<open>str.lower\<close> and \<open>str.title\<close>, which follow the
    Unicode case tables.

  The database answers every query and accepts every commit.
\<close>

datatype fetch = RequestException | OtherException | Sentence pystr

record env =
  geolocator_geocode :: "pystr \<Rightarrow> (real \<times> real) option"
  open_meteo :: "real option \<Rightarrow> real option \<Rightarrow> pystr \<Rightarrow> fetch"
  soilgrids :: "real option \<Rightarrow> real option \<Rightarrow> pystr \<Rightarrow> fetch"
  gtts_saves :: "pystr \<Rightarrow> pystr \<Rightarrow> pystr \<Rightarrow> bool"
  str_lower :: "pystr \<Rightarrow> pystr"
  str_title :: "pystr \<Rightarrow> pystr"

section \<open>The database and the sessions\<close>

text \<open>
  A row of the table \<open>Farmer\<close>; the columns \<open>id\<close>, \<open>name\<close> and \<open>address\<close> are the fields
  \<open>fid\<close>, \<open>fname\<close> and \<open>faddress\<close>. The table is the list of its rows in the order of
  insertion.
\<close>

record farmer =
  fid :: int
  fname :: pystr
  faddress :: pystr
  language :: "pystr option"
  lat :: "real option"
  lon :: "real option"
  last_problem_summary :: "pystr option"

text \<open>The dictionary that \<open>get_session_data\<close> stores for a session.\<close>

record session =
  step :: int
  name :: "pystr option"
  address :: "pystr option"
  lang :: pystr
  farmer_id :: "int option"
  problem_text :: "pystr option"

record state =
  session_states :: "pystr \<rightharpoonup> session"
  farmers :: "farmer list"

text \<open>
  The value of a field of the JSON body of a request: \<open>null\<close>, a string, or a value of
  another type (a number, a boolean, an array or an object).
\<close>

datatype json = Json_null | Json_str pystr | Json_other

text \<open>
  What a request returns: a JSON body with status 200, a JSON body with status 400 (with
  a text and a step, or with an error message), or an exception that no handler catches.
\<close>

datatype response =
  Json_200 (text_response: pystr) (audio_url: pystr) (next_step: int)
| Json_400_text pystr int
| Json_400_error pystr
| Server_error

text \<open>\<open>Farmer.query.filter_by(name=name, address=address).first()\<close>.\<close>

definition filter_by_first :: "pystr \<Rightarrow> pystr \<Rightarrow> farmer list \<Rightarrow> farmer option" where
  "filter_by_first nm addr rows = find (\<lambda>f. fname f = nm \<and> faddress f = addr) rows"

text \<open>\<open>Farmer.query.get(id)\<close>; the id \<open>None\<close> finds no row.\<close>

definition query_get :: "int option \<Rightarrow> farmer list \<Rightarrow> farmer option" where
  "query_get ident rows =
     (case ident of None \<Rightarrow> None | Some i \<Rightarrow> find (\<lambda>f. fid f = i) rows)"

text \<open>The key SQLite gives a new row: one more than the largest key, 1 in an empty table.\<close>

definition next_id :: "farmer list \<Rightarrow> int" where
  "next_id rows = (case rows of [] \<Rightarrow> 1 | f # fs \<Rightarrow> fold max (map fid fs) (fid f) + 1)"

text \<open>\<open>db.session.add(Farmer(name=..., address=..., language=...)); db.session.commit()\<close>.\<close>

definition add_farmer :: "pystr \<Rightarrow> pystr \<Rightarrow> pystr \<Rightarrow> farmer list \<Rightarrow> farmer list" where
  "add_farmer nm addr lg rows =
     rows @ [\<lparr>fid = next_id rows, fname = nm, faddress = addr, language = Some lg,
              lat = None, lon = None, last_problem_summary = None\<rparr>]"

text \<open>
  The commit of step 2: the row of the farmer gets the coordinates and the problem text.
\<close>

definition commit_problem ::
  "int \<Rightarrow> real option \<Rightarrow> real option \<Rightarrow> pystr \<Rightarrow> farmer list \<Rightarrow> farmer list" where
  "commit_problem i la lo problem rows =
     map (\<lambda>g. if fid g = i
               then g\<lparr>lat := la, lon := lo, last_problem_summary := Some problem\<rparr>
               else g) rows"

definition new_session :: session where
  "new_session = \<lparr>step = 0, name = None, address = None, lang = ascii ''hi'',
                   farmer_id = None, problem_text = None\<rparr>"

text \<open>
  \<open>get_session_data\<close> returns the dictionary of the session, which it first stores when
  the session is new. The callers mutate the dictionary in place; here they write it back
  with \<open>set_session\<close>.
\<close>

definition get_session_data :: "state \<Rightarrow> pystr \<Rightarrow> state \<times> session" where
  "get_session_data st sid =
     (case session_states st sid of
        None \<Rightarrow> (st\<lparr>session_states := (session_states st)(sid \<mapsto> new_session)\<rparr>, new_session)
      | Some sd \<Rightarrow> (st, sd))"

definition set_session :: "state \<Rightarrow> pystr \<Rightarrow> session \<Rightarrow> state" where
  "set_session st sid sd = st\<lparr>session_states := (session_states st)(sid \<mapsto> sd)\<rparr>"

section \<open>Geocoding, providers and speech\<close>

definition geocode_address :: "env \<Rightarrow> pystr \<Rightarrow> real option \<times> real option" where
  "geocode_address e addr =
     (case geolocator_geocode e addr of
        Some (latitude, longitude) \<Rightarrow> (Some latitude, Some longitude)
      | None \<Rightarrow> (None, None))"

text \<open>
  The two providers that call a service catch \<open>requests.exceptions.RequestException\<close>
  only. Their result is \<open>None\<close> when another exception leaves the function.
\<close>

definition get_current_weather ::
  "env \<Rightarrow> real option \<Rightarrow> real option \<Rightarrow> pystr \<Rightarrow> pystr option" where
  "get_current_weather e latitude longitude lg =
     (case open_meteo e latitude longitude lg of
        Sentence s \<Rightarrow> Some s
      | RequestException \<Rightarrow>
          Some (if lg = ascii ''hi'' then weather_error_hi else weather_error_en)
      | OtherException \<Rightarrow> None)"

definition get_soil_data ::
  "env \<Rightarrow> real option \<Rightarrow> real option \<Rightarrow> pystr \<Rightarrow> pystr option" where
  "get_soil_data e latitude longitude lg =
     (case soilgrids e latitude longitude lg of
        Sentence s \<Rightarrow> Some s
      | RequestException \<Rightarrow> Some (if lg = ascii ''hi'' then soil_error_hi else soil_error_en)
      | OtherException \<Rightarrow> None)"

definition prices :: "(pystr \<times> nat) list" where
  "prices = [(ascii ''wheat'', 2200), (ascii ''rice'', 4000), (ascii ''corn'', 1800)]"

definition hindi_crops :: "(pystr \<times> pystr) list" where
  "hindi_crops = [(ascii ''wheat'', hindi_wheat), (ascii ''rice'', hindi_rice),
                  (ascii ''corn'', hindi_corn)]"

definition get_market_prices :: "env \<Rightarrow> pystr \<Rightarrow> pystr \<Rightarrow> pystr" where
  "get_market_prices e crop_name lg =
     (case map_of prices (str_lower e crop_name) of
        Some price \<Rightarrow>
          (if lg = ascii ''hi''
           then (let hindi_crop = (case map_of hindi_crops (str_lower e crop_name) of
                                     Some h \<Rightarrow> h | None \<Rightarrow> crop_name)
                 in market_price_hi hindi_crop (str_nat price))
           else market_price_en crop_name (str_nat price))
      | None \<Rightarrow> (if lg = ascii ''hi'' then market_unavailable_hi else market_unavailable_en))"

definition get_ndvi_advice :: "real option \<Rightarrow> real option \<Rightarrow> pystr \<Rightarrow> pystr \<Rightarrow> pystr" where
  "get_ndvi_advice latitude longitude crop_name lg =
     (if lg = ascii ''hi'' then ndvi_advice_hi crop_name else ndvi_advice_en crop_name)"

text \<open>
  \<open>translate_and_tts\<close> returns the path of the audio file, and \<open>None\<close> when gTTS raises.
\<close>

definition translate_and_tts :: "env \<Rightarrow> pystr \<Rightarrow> pystr \<Rightarrow> pystr \<Rightarrow> pystr option" where
  "translate_and_tts e text lang_code session_id =
     (let audio_path = ascii ''static/audio/response_'' @ session_id @ ascii ''.mp3'';
          tts_lang = (if lang_code = ascii ''en'' then ascii ''en'' else ascii ''hi'')
      in if gtts_saves e text tts_lang audio_path then Some audio_path else None)"

text \<open>
  The body every reply is built with:
  \<open>jsonify({'text_response': ..., 'audio_url': audio_path.replace('static/', '/audio/'),
  'next_step': ...})\<close>. On the audio path \<open>None\<close> the call of \<open>replace\<close> raises an
  \<open>AttributeError\<close>, which nothing catches.
\<close>

definition jsonify_reply :: "pystr \<Rightarrow> pystr option \<Rightarrow> int \<Rightarrow> response" where
  "jsonify_reply text audio_path nxt =
     (case audio_path of
        None \<Rightarrow> Server_error
      | Some p \<Rightarrow> Json_200 text (replace (ascii ''static/'') (ascii ''/audio/'') p) nxt)"

section \<open>The endpoints\<close>

subsection \<open>\<open>start_session\<close>\<close>

text \<open>
  The arguments are the fields \<open>session_id\<close> and \<open>lang\<close> of the JSON body, \<open>None\<close> for
  a field that is absent; a field that is there holds a string (\<open>null\<close> counts as absent).
  \<open>not session_id\<close> holds for an absent and for an empty id.
\<close>

definition start_session ::
  "env \<Rightarrow> state \<Rightarrow> pystr option \<Rightarrow> pystr option \<Rightarrow> state \<times> response" where
  "start_session e st session_id lang_field =
     (let lg = (case lang_field of None \<Rightarrow> ascii ''hi'' | Some l \<Rightarrow> l)
      in case session_id of
           None \<Rightarrow> (st, Json_400_error (ascii ''Missing session ID''))
         | Some sid \<Rightarrow>
             if sid = [] then (st, Json_400_error (ascii ''Missing session ID''))
             else
               (let (st1, session_data) = get_session_data st sid;
                    session_data = session_data\<lparr>lang := lg\<rparr>;
                    session_data = session_data\<lparr>step := 1\<rparr>;
                    welcome_text = (if lg = ascii ''hi'' then welcome_text_hi else welcome_text_en);
                    audio_path = translate_and_tts e welcome_text lg sid
                in (set_session st1 sid session_data, jsonify_reply welcome_text audio_path 1)))"

subsection \<open>The aggregator \<open>get_api_advice\<close>\<close>

text \<open>
  An exception that leaves a provider leaves \<open>get_api_advice\<close> too, before the step is
  written. \<open>session_states[session_id]\<close> raises a \<open>KeyError\<close> for an unknown session;
  the caller has always stored the session before.
\<close>

definition final_advice :: "pystr \<Rightarrow> pystr \<Rightarrow> pystr \<Rightarrow> pystr \<Rightarrow> pystr \<Rightarrow> pystr" where
  "final_advice lg problem weather_info soil_info ndvi_advice =
     (if lg = ascii ''hi''
      then advice_problem_hi problem @ advice_weather_hi weather_info @ advice_soil_hi soil_info
           @ advice_ndvi_hi ndvi_advice @ advice_hint_hi
      else advice_problem_en problem @ advice_weather_en weather_info @ advice_soil_en soil_info
           @ advice_ndvi_en ndvi_advice @ advice_hint_en)"

definition get_api_advice ::
  "env \<Rightarrow> state \<Rightarrow> pystr \<Rightarrow> real option \<Rightarrow> real option \<Rightarrow> pystr \<Rightarrow> pystr \<Rightarrow> state \<times> response"
  where
  "get_api_advice e st session_id la lo problem lg =
     (let crop_name = ascii ''rice''
      in case get_current_weather e la lo lg of
           None \<Rightarrow> (st, Server_error)
         | Some weather_info \<Rightarrow>
             (case get_soil_data e la lo lg of
                None \<Rightarrow> (st, Server_error)
              | Some soil_info \<Rightarrow>
                  (let ndvi_advice = get_ndvi_advice la lo crop_name lg;
                       advice = final_advice lg problem weather_info soil_info ndvi_advice;
                       audio_path = translate_and_tts e advice lg session_id
                   in case session_states st session_id of
                        None \<Rightarrow> (st, Server_error)
                      | Some sd \<Rightarrow>
                          (set_session st session_id (sd\<lparr>step := 4\<rparr>),
                           jsonify_reply advice audio_path 4))))"

subsection \<open>The follow-up router \<open>get_active_chat_response\<close>\<close>

text \<open>
  The \<open>if\<close>/\<open>elif\<close> chain that chooses \<open>response_text\<close>; \<open>None\<close> when an exception
  leaves the provider it calls.
\<close>

definition active_chat_text :: "env \<Rightarrow> farmer \<Rightarrow> pystr \<Rightarrow> pystr \<Rightarrow> pystr option" where
  "active_chat_text e f query_text lg =
     (let query = str_lower e query_text;
          crop_name = ascii ''wheat''
      in if (sublist kw_bazaar query \<or> sublist kw_keemat query \<or> sublist (ascii ''price'') query
             \<or> sublist (ascii ''market'') query) \<and> truthy_str (last_problem_summary f)
         then Some (get_market_prices e crop_name lg)
         else if sublist kw_mausam query \<or> sublist (ascii ''weather'') query
                 \<or> sublist kw_taapmaan query \<or> sublist (ascii ''temperature'') query
         then get_current_weather e (lat f) (lon f) lg
         else if sublist kw_mitti query \<or> sublist (ascii ''soil'') query
                 \<or> sublist (ascii ''ph'') query
         then get_soil_data e (lat f) (lon f) lg
         else if sublist kw_dhanyavaad query \<or> sublist (ascii ''thanks'') query
         then Some (if lg = ascii ''hi'' then thanks_hi else thanks_en)
         else Some (if lg = ascii ''hi'' then fallback_hi else fallback_en))"

definition get_active_chat_response ::
  "env \<Rightarrow> state \<Rightarrow> pystr \<Rightarrow> farmer \<Rightarrow> pystr \<Rightarrow> pystr \<Rightarrow> response" where
  "get_active_chat_response e st session_id f query_text lg =
     (case active_chat_text e f query_text lg of
        None \<Rightarrow> Server_error
      | Some response_text \<Rightarrow>
          (let audio_path = translate_and_tts e response_text lg session_id
           in case session_states st session_id of
                None \<Rightarrow> Server_error
              | Some sd \<Rightarrow> jsonify_reply response_text audio_path (step sd)))"

subsection \<open>\<open>handle_conversation\<close>\<close>

text \<open>Step 1, lines 268 to 274: the name and the address of the input.\<close>

definition parse_name_address :: "env \<Rightarrow> pystr \<Rightarrow> pystr \<times> pystr" where
  "parse_name_address e farmer_input =
     (let parts = map (\<lambda>p. str_title e (strip p)) (split_on 44 farmer_input);
          parts = (if length parts < 2
                   then map (\<lambda>p. str_title e (strip p)) (split_ws farmer_input)
                   else parts);
          nm = (case parts of [] \<Rightarrow> ascii ''Kisan'' | p # _ \<Rightarrow> p);
          addr = (if 1 < length parts then join (ascii '' '') (drop 1 parts)
                  else ascii ''Unknown Address'')
      in (nm, addr))"

text \<open>Step 1, lines 276 to 322: the farmer is recognised or created.\<close>

definition step_1 :: "env \<Rightarrow> state \<Rightarrow> pystr \<Rightarrow> session \<Rightarrow> pystr \<Rightarrow> state \<times> response" where
  "step_1 e st sid session_data farmer_input =
     (let lg = lang session_data;
          (nm, addr) = parse_name_address e farmer_input;
          session_data = session_data\<lparr>name := Some nm, address := Some addr\<rparr>;
          found = filter_by_first nm addr (farmers st);
          (session_data, response_text) =
            (case found of
               Some f \<Rightarrow>
                 (let session_data = session_data\<lparr>farmer_id := Some (fid f), step := 3\<rparr>
                  in if truthy_str (last_problem_summary f)
                     then (session_data,
                           if lg = ascii ''hi''
                           then recap_hi (fname f) (format_str (last_problem_summary f))
                           else recap_en (fname f) (format_str (last_problem_summary f)))
                     else (session_data\<lparr>step := 2\<rparr>,
                           if lg = ascii ''hi'' then welcome_back_hi (fname f)
                           else welcome_back_en (fname f)))
             | None \<Rightarrow>
                 (session_data\<lparr>step := 2\<rparr>,
                  if lg = ascii ''hi'' then thank_you_hi nm else thank_you_en nm));
          (rows, session_data) =
            (case found of
               None \<Rightarrow> (add_farmer nm addr lg (farmers st),
                         session_data\<lparr>farmer_id := Some (next_id (farmers st))\<rparr>)
             | Some f \<Rightarrow> (farmers st, session_data));
          audio_path = translate_and_tts e response_text lg sid
      in (set_session (st\<lparr>farmers := rows\<rparr>) sid session_data,
          jsonify_reply response_text audio_path (step session_data)))"

text \<open>
  Step 2, lines 326 to 363. The assignment to \<open>farmer.last_problem_summary\<close> reaches the
  database only with the commit of the branch in which both coordinates are true;
  \<open>db.session.close()\<close> drops it in the other one.
\<close>

definition step_2 :: "env \<Rightarrow> state \<Rightarrow> pystr \<Rightarrow> session \<Rightarrow> pystr \<Rightarrow> state \<times> response" where
  "step_2 e st sid session_data farmer_input =
     (let lg = lang session_data;
          problem = farmer_input;
          session_data = session_data\<lparr>problem_text := Some problem\<rparr>;
          session_data = session_data\<lparr>step := 3\<rparr>
      in case query_get (farmer_id session_data) (farmers st) of
           Some f \<Rightarrow>
             (let (la, lo) = geocode_address e (faddress f)
              in if truthy_float la \<and> truthy_float lo then
                   get_api_advice e
                     (set_session (st\<lparr>farmers := commit_problem (fid f) la lo problem (farmers st)\<rparr>)
                        sid session_data)
                     sid la lo problem lg
                 else
                   (let response_text = (if lg = ascii ''hi'' then geocode_failed_hi
                                         else geocode_failed_en);
                        audio_path = translate_and_tts e response_text lg sid;
                        session_data = session_data\<lparr>step := 1\<rparr>
                    in (set_session st sid session_data, jsonify_reply response_text audio_path 1)))
         | None \<Rightarrow>
             (let response_text = (if lg = ascii ''hi'' then farmer_not_found_hi
                                   else farmer_not_found_en);
                  audio_path = translate_and_tts e response_text lg sid
              in (set_session st sid session_data, jsonify_reply response_text audio_path 1)))"

text \<open>Steps 3 and above, lines 367 to 377.\<close>

definition step_3_up :: "env \<Rightarrow> state \<Rightarrow> pystr \<Rightarrow> session \<Rightarrow> pystr \<Rightarrow> state \<times> response" where
  "step_3_up e st sid session_data farmer_input =
     (let lg = lang session_data;
          provide_address = (if lg = ascii ''hi'' then Json_400_text provide_address_hi 1
                             else Json_400_text provide_address_en 1)
      in case query_get (farmer_id session_data) (farmers st) of
           None \<Rightarrow> (st, provide_address)
         | Some f \<Rightarrow>
             if \<not> truthy_float (lat f) then (st, provide_address)
             else (st, get_active_chat_response e st sid f farmer_input lg))"

text \<open>
  Line 256, \<open>data.get('query', '').strip()\<close>: an absent query is the empty string, and
  on a query that is \<open>null\<close> or of another type than string the call of \<open>strip\<close> raises
  an \<open>AttributeError\<close> (the result \<open>None\<close>), which nothing catches.
\<close>

definition query_strip :: "json option \<Rightarrow> pystr option" where
  "query_strip query_field =
     (case query_field of
        None \<Rightarrow> Some (strip [])
      | Some (Json_str q) \<Rightarrow> Some (strip q)
      | Some Json_null \<Rightarrow> None
      | Some Json_other \<Rightarrow> None)"

text \<open>
  The arguments are the fields \<open>session_id\<close> and \<open>query\<close> of the JSON body, \<open>None\<close> for
  a field that is absent. The session id is a string when it is there (\<open>null\<close> counts as
  absent); the query is any JSON value, and it is stripped before the two fields are
  tested.
\<close>

definition handle_conversation ::
  "env \<Rightarrow> state \<Rightarrow> pystr option \<Rightarrow> json option \<Rightarrow> state \<times> response" where
  "handle_conversation e st session_id query_field =
     (case query_strip query_field of
        None \<Rightarrow> (st, Server_error)
      | Some farmer_input \<Rightarrow>
          (case session_id of
             None \<Rightarrow> (st, Json_400_error (ascii ''Missing session ID or query''))
           | Some sid \<Rightarrow>
               if sid = [] \<or> farmer_input = []
               then (st, Json_400_error (ascii ''Missing session ID or query''))
               else
                 (let (st1, session_data) = get_session_data st sid
                  in if step session_data = 1 then step_1 e st1 sid session_data farmer_input
                     else if step session_data = 2
                     then step_2 e st1 sid session_data farmer_input
                     else if 3 \<le> step session_data
                     then step_3_up e st1 sid session_data farmer_input
                     else (st1, Json_400_error (ascii ''Invalid conversation step.'')))))"

section \<open>Sequences of requests\<close>

text \<open>A request to one of the two endpoints, with what it observes of the outside.\<close>

datatype call =
  Start env "pystr option" "pystr option"
| Chat env "pystr option" "json option"

fun serve :: "state \<Rightarrow> call \<Rightarrow> state \<times> response" where
  "serve st (Start e session_id lang_field) = start_session e st session_id lang_field"
| "serve st (Chat e session_id query_field) = handle_conversation e st session_id query_field"

fun run :: "state \<Rightarrow> call list \<Rightarrow> state" where
  "run st [] = st"
| "run st (c # cs) = run (fst (serve st c)) cs"

text \<open>The steps the comment of \<open>get_session_data\<close> lists.\<close>

definition steps_valid :: "state \<Rightarrow> bool" where
  "steps_valid st = (\<forall>sd \<in> ran (session_states st). step sd \<in> {0, 1, 2, 3, 4})"

section \<open>An environment for ASCII and Devanagari text\<close>

text \<open>
  Devanagari has no letter case, so on text of ASCII and Devanagari \<open>str.lower\<close> and
  \<open>str.title\<close> change the ASCII letters only: \<open>title\<close> makes a letter upper case when the
  code point before it is not a letter, and lower case otherwise.
\<close>

definition ascii_lower :: "pystr \<Rightarrow> pystr" where
  "ascii_lower s = map (\<lambda>c. if 65 \<le> c \<and> c \<le> 90 then c + 32 else c) s"

fun ascii_title_from :: "bool \<Rightarrow> pystr \<Rightarrow> pystr" where
  "ascii_title_from previous_is_cased [] = []"
| "ascii_title_from previous_is_cased (c # cs) =
     (if 65 \<le> c \<and> c \<le> 90
      then (if previous_is_cased then c + 32 else c) # ascii_title_from True cs
      else if 97 \<le> c \<and> c \<le> 122
      then (if previous_is_cased then c else c - 32) # ascii_title_from True cs
      else c # ascii_title_from False cs)"

definition ascii_title :: "pystr \<Rightarrow> pystr" where
  "ascii_title s = ascii_title_from False s"

definition ascii_env ::
  "(pystr \<Rightarrow> (real \<times> real) option) \<Rightarrow> fetch \<Rightarrow> fetch \<Rightarrow> bool \<Rightarrow> env" where
  "ascii_env geo weather soil audio =
     \<lparr>geolocator_geocode = geo, open_meteo = (\<lambda>latitude longitude lg. weather),
      soilgrids = (\<lambda>latitude longitude lg. soil),
      gtts_saves = (\<lambda>text tts_lang audio_path. audio),
      str_lower = ascii_lower, str_title = ascii_title\<rparr>"

section \<open>Sample data\<close>

text \<open>An environment without network in which the speech file is still written.\<close>

definition offline :: env where
  "offline = ascii_env (\<lambda>a. None) RequestException RequestException True"

text \<open>A row for Ravi of Pune, a process that has just started, and a store of one session.\<close>

definition ravi :: "real option \<Rightarrow> real option \<Rightarrow> pystr option \<Rightarrow> farmer" where
  "ravi la lo summary =
     \<lparr>fid = 1, fname = ascii ''Ravi'', faddress = ascii ''Pune'', language = Some (ascii ''en''),
      lat = la, lon = lo, last_problem_summary = summary\<rparr>"

definition fresh :: "farmer list \<Rightarrow> state" where
  "fresh rows = \<lparr>session_states = Map.empty, farmers = rows\<rparr>"

definition in_step :: "int \<Rightarrow> int option \<Rightarrow> session" where
  "in_step n ident =
     \<lparr>step = n, name = Some (ascii ''Ravi''), address = Some (ascii ''Pune''),
      lang = ascii ''en'', farmer_id = ident, problem_text = None\<rparr>"

definition one_session :: "pystr \<Rightarrow> session \<Rightarrow> farmer list \<Rightarrow> state" where
  "one_session sid sd rows = \<lparr>session_states = [sid \<mapsto> sd], farmers = rows\<rparr>"

section \<open>Basic facts\<close>

lemma get_session_data_known:
  "session_states st sid = Some sd \<Longrightarrow> get_session_data st sid = (st, sd)"
  by (simp add: get_session_data_def)

lemma session_states_set_session [simp]:
  "session_states (set_session st sid sd) = (session_states st)(sid \<mapsto> sd)"
  by (simp add: set_session_def)

lemma farmers_set_session [simp]: "farmers (set_session st sid sd) = farmers st"
  by (simp add: set_session_def)

lemma set_session_same [simp]:
  "set_session (set_session st sid a) sid b = set_session st sid b"
  by (simp add: set_session_def)

lemma set_session_one [simp]:
  "set_session (one_session sid a rows) sid b = one_session sid b rows"
  by (simp add: set_session_def one_session_def)

lemma translate_and_tts_offline:
  "translate_and_tts offline text lg sid = Some (ascii ''static/audio/response_'' @ sid @ ascii ''.mp3'')"
  by (simp add: translate_and_tts_def offline_def ascii_env_def)

lemma find_append_row:
  "find P (rows @ [r]) =
     (case find P rows of None \<Rightarrow> (if P r then Some r else None) | Some x \<Rightarrow> Some x)"
  by (induction rows) auto

lemma filter_by_first_new_row:
  "filter_by_first nm addr rows = None \<Longrightarrow>
   filter_by_first nm addr
     (rows @ [\<lparr>fid = i, fname = nm, faddress = addr, language = l,
               lat = la, lon = lo, last_problem_summary = p\<rparr>]) =
     Some \<lparr>fid = i, fname = nm, faddress = addr, language = l,
           lat = la, lon = lo, last_problem_summary = p\<rparr>"
  by (simp add: filter_by_first_def find_append_row)

lemma filter_by_first_fields:
  "filter_by_first nm addr rows = Some f \<Longrightarrow> fname f = nm \<and> faddress f = addr"
  by (auto simp: filter_by_first_def find_Some_iff)

subsection \<open>Splitting\<close>

lemma split_on_length: "length (split_on sep s) = Suc (length (filter (\<lambda>c. c = sep) s))"
  by (induction s) (auto split: list.splits)

lemma split_on_single: "length (split_on sep s) < 2 \<longleftrightarrow> sep \<notin> set s"
  by (auto simp: split_on_length less_Suc_eq filter_empty_conv)

lemma split_ws_empty: "split_ws s = [] \<longleftrightarrow> (\<forall>c \<in> set s. isspace c)"
  by (induction s) (auto split: list.splits)

lemma strip_has_text:
  assumes "strip s \<noteq> []"
  shows "\<exists>c \<in> set (strip s). \<not> isspace c"
proof -
  let ?t = "dropWhile isspace (rev (dropWhile isspace s))"
  from assms have ne: "?t \<noteq> []" by (simp add: strip_def)
  then have "\<not> isspace (hd ?t)" by (rule hd_dropWhile)
  moreover have "hd ?t \<in> set ?t" using ne by simp
  ultimately show ?thesis by (auto simp: strip_def)
qed

lemma parse_ravi:
  "parse_name_address offline (ascii ''Ravi, Pune'') = (ascii ''Ravi'', ascii ''Pune'')"
  by (simp add: parse_name_address_def strip_def isspace_def offline_def ascii_env_def
      ascii_title_def)

subsection \<open>One turn, branch by branch\<close>

lemma start_session_accepted:
  "sid \<noteq> [] \<Longrightarrow>
   fst (start_session e st (Some sid) l) =
     set_session st sid
       ((case session_states st sid of None \<Rightarrow> new_session | Some sd \<Rightarrow> sd)
          \<lparr>lang := (case l of None \<Rightarrow> ascii ''hi'' | Some x \<Rightarrow> x), step := 1\<rparr>)"
  by (simp add: start_session_def get_session_data_def Let_def split: option.splits)

lemma step_1_turn:
  assumes "session_states st sid = Some sd" and "step sd = 1"
    and "sid \<noteq> []" and "strip q \<noteq> []"
  shows "handle_conversation e st (Some sid) (Some (Json_str q)) = step_1 e st sid sd (strip q)"
  using assms by (simp add: handle_conversation_def query_strip_def get_session_data_known Let_def)

lemma step_1_found:
  assumes "parse_name_address e farmer_input = (nm, addr)"
    and "filter_by_first nm addr (farmers st) = Some f"
  shows "step_1 e st sid sd farmer_input =
    (let known = truthy_str (last_problem_summary f);
         nxt = (if known then 3 else 2);
         response_text =
           (if known
            then (if lang sd = ascii ''hi''
                  then recap_hi (fname f) (format_str (last_problem_summary f))
                  else recap_en (fname f) (format_str (last_problem_summary f)))
            else (if lang sd = ascii ''hi'' then welcome_back_hi (fname f)
                  else welcome_back_en (fname f)))
     in (set_session st sid
           (sd\<lparr>name := Some nm, address := Some addr, farmer_id := Some (fid f), step := nxt\<rparr>),
         jsonify_reply response_text (translate_and_tts e response_text (lang sd) sid) nxt))"
  using assms by (simp add: step_1_def Let_def)

lemma step_1_new:
  assumes "parse_name_address e farmer_input = (nm, addr)"
    and "filter_by_first nm addr (farmers st) = None"
  shows "step_1 e st sid sd farmer_input =
    (let response_text = (if lang sd = ascii ''hi'' then thank_you_hi nm else thank_you_en nm)
     in (set_session (st\<lparr>farmers := add_farmer nm addr (lang sd) (farmers st)\<rparr>) sid
           (sd\<lparr>name := Some nm, address := Some addr, step := 2,
               farmer_id := Some (next_id (farmers st))\<rparr>),
         jsonify_reply response_text (translate_and_tts e response_text (lang sd) sid) 2))"
  using assms by (simp add: step_1_def Let_def)

lemma step_1_step:
  "map_option step (session_states (fst (step_1 e st sid sd farmer_input)) sid) = Some 2 \<or>
   map_option step (session_states (fst (step_1 e st sid sd farmer_input)) sid) = Some 3"
  by (simp add: step_1_def Let_def split: prod.splits option.splits)

lemma get_api_advice_known:
  "session_states st sid = Some sd \<Longrightarrow>
   get_current_weather e la lo lg = Some weather_info \<Longrightarrow>
   get_soil_data e la lo lg = Some soil_info \<Longrightarrow>
   get_api_advice e st sid la lo problem lg =
     (set_session st sid (sd\<lparr>step := 4\<rparr>),
      jsonify_reply
        (final_advice lg problem weather_info soil_info
           (get_ndvi_advice la lo (ascii ''rice'') lg))
        (translate_and_tts e
           (final_advice lg problem weather_info soil_info
              (get_ndvi_advice la lo (ascii ''rice'') lg)) lg sid) 4)"
  by (simp add: get_api_advice_def Let_def)

text \<open>An exception that leaves a provider: no reply, and the state as it was passed in.\<close>

lemma get_api_advice_raises:
  "get_current_weather e la lo lg = None \<or> get_soil_data e la lo lg = None \<Longrightarrow>
   get_api_advice e st sid la lo problem lg = (st, Server_error)"
  by (auto simp: get_api_advice_def Let_def split: option.splits)

lemma provider_result:
  "get_current_weather e la lo lg = None \<longleftrightarrow> open_meteo e la lo lg = OtherException"
  "get_soil_data e la lo lg = None \<longleftrightarrow> soilgrids e la lo lg = OtherException"
  by (simp_all add: get_current_weather_def get_soil_data_def split: fetch.splits)

lemma geocoding_success_turn:
  assumes "session_states st sid = Some sd" and "step sd = 2"
    and "sid \<noteq> []" and "strip q \<noteq> []"
    and "query_get (farmer_id sd) (farmers st) = Some f"
    and "geocode_address e (faddress f) = (la, lo)"
    and "truthy_float la" and "truthy_float lo"
  shows "handle_conversation e st (Some sid) (Some (Json_str q)) =
           get_api_advice e
             (set_session (st\<lparr>farmers := commit_problem (fid f) la lo (strip q) (farmers st)\<rparr>)
                sid (sd\<lparr>problem_text := Some (strip q), step := 3\<rparr>))
             sid la lo (strip q) (lang sd)"
  using assms
  by (simp add: handle_conversation_def query_strip_def get_session_data_known step_2_def Let_def)

lemma geocoding_failure_turn:
  assumes "session_states st sid = Some sd" and "step sd = 2"
    and "sid \<noteq> []" and "strip q \<noteq> []"
    and "query_get (farmer_id sd) (farmers st) = Some f"
    and "geocode_address e (faddress f) = (la, lo)"
    and "\<not> (truthy_float la \<and> truthy_float lo)"
  shows "handle_conversation e st (Some sid) (Some (Json_str q)) =
           (set_session st sid (sd\<lparr>problem_text := Some (strip q), step := 1\<rparr>),
            jsonify_reply
              (if lang sd = ascii ''hi'' then geocode_failed_hi else geocode_failed_en)
              (translate_and_tts e
                 (if lang sd = ascii ''hi'' then geocode_failed_hi else geocode_failed_en)
                 (lang sd) sid) 1)"
  using assms
  by (auto simp: handle_conversation_def query_strip_def get_session_data_known step_2_def Let_def)

text \<open>
  The farmer of the session is not in the table at step 2: the reply announces step 1, the
  session keeps the step 3 that line 328 stored.
\<close>

lemma missing_identity_turn:
  assumes "session_states st sid = Some sd" and "step sd = 2"
    and "sid \<noteq> []" and "strip q \<noteq> []"
    and "query_get (farmer_id sd) (farmers st) = None"
  shows "handle_conversation e st (Some sid) (Some (Json_str q)) =
           (set_session st sid (sd\<lparr>problem_text := Some (strip q), step := 3\<rparr>),
            jsonify_reply
              (if lang sd = ascii ''hi'' then farmer_not_found_hi else farmer_not_found_en)
              (translate_and_tts e
                 (if lang sd = ascii ''hi'' then farmer_not_found_hi else farmer_not_found_en)
                 (lang sd) sid) 1)"
  using assms
  by (simp add: handle_conversation_def query_strip_def get_session_data_known step_2_def Let_def)

text \<open>
  No farmer or no latitude at step 3 and above: the reply announces step 1, nothing is
  stored.
\<close>

lemma missing_coordinates_turn:
  assumes "session_states st sid = Some sd" and "3 \<le> step sd"
    and "sid \<noteq> []" and "strip q \<noteq> []"
    and "query_get (farmer_id sd) (farmers st) = None \<or>
         (\<exists>f. query_get (farmer_id sd) (farmers st) = Some f \<and> \<not> truthy_float (lat f))"
  shows "handle_conversation e st (Some sid) (Some (Json_str q)) =
           (st, Json_400_text (if lang sd = ascii ''hi'' then provide_address_hi
                               else provide_address_en) 1)"
  using assms
  by (auto simp: handle_conversation_def query_strip_def get_session_data_known step_3_up_def Let_def)

lemma follow_up_turn:
  assumes "session_states st sid = Some sd" and "3 \<le> step sd"
    and "sid \<noteq> []" and "strip q \<noteq> []"
    and "query_get (farmer_id sd) (farmers st) = Some f" and "truthy_float (lat f)"
  shows "handle_conversation e st (Some sid) (Some (Json_str q)) =
           (st, get_active_chat_response e st sid f (strip q) (lang sd))"
  using assms
  by (simp add: handle_conversation_def query_strip_def get_session_data_known step_3_up_def
      Let_def)

subsection \<open>The sections of the advisory\<close>

lemma sublist_first: "sublist xs (xs @ ss)"
  using sublist_appendI [of xs "[]" ss] by simp

lemma sublist_third: "sublist xs (a @ b @ xs @ ss)"
  using sublist_appendI [of xs "a @ b" ss] by simp

lemma sublist_fourth: "sublist xs (a @ b @ c @ xs @ ss)"
  using sublist_appendI [of xs "a @ b @ c" ss] by simp

lemma final_advice_sections:
  "lg = ascii ''hi'' \<Longrightarrow>
     sublist (advice_problem_hi p) (final_advice lg p w s n) \<and>
     sublist (advice_weather_hi w) (final_advice lg p w s n) \<and>
     sublist (advice_soil_hi s) (final_advice lg p w s n) \<and>
     sublist (advice_ndvi_hi n) (final_advice lg p w s n)"
  "lg \<noteq> ascii ''hi'' \<Longrightarrow>
     sublist (advice_problem_en p) (final_advice lg p w s n) \<and>
     sublist (advice_weather_en w) (final_advice lg p w s n) \<and>
     sublist (advice_soil_en s) (final_advice lg p w s n) \<and>
     sublist (advice_ndvi_en n) (final_advice lg p w s n)"
  unfolding final_advice_def
  by (simp_all only: if_True if_False sublist_first sublist_appendI sublist_third
      sublist_fourth simp_thms)

section \<open>Rejected requests\<close>

text \<open>
  A request to \<open>handle_conversation\<close> whose query is absent or a string, and which has no
  session id (absent or empty) or an empty query (absent, empty or white space only), is
  answered with status 400 and the error \<open>Missing session ID or query\<close>. A query that is
  \<open>null\<close> or of another type raises before the fields are tested. In both cases the state
  after the request is the state before it. \<open>start_session\<close> answers a request without a
  session id with status 400 and leaves the state as it was.
\<close>

lemma missing_fields_rejected:
  "((session_id = None \<or> session_id = Some [] \<or> query_strip query_field = Some []) \<and>
    query_strip query_field \<noteq> None \<longrightarrow>
     handle_conversation e st session_id query_field =
       (st, Json_400_error (ascii ''Missing session ID or query''))) \<and>
   (query_strip query_field = None \<longrightarrow>
     handle_conversation e st session_id query_field = (st, Server_error)) \<and>
   ((session_id = None \<or> session_id = Some []) \<longrightarrow>
     start_session e st session_id lang_field =
       (st, Json_400_error (ascii ''Missing session ID'')))"
  by (auto simp: handle_conversation_def start_session_def Let_def split: option.splits)

lemma query_strip_cases:
  "query_strip None = Some []"
  "query_strip (Some (Json_str q)) = Some (strip q)"
  "query_strip (Some Json_null) = None"
  "query_strip (Some Json_other) = None"
  by (simp_all add: query_strip_def strip_def)

text \<open>
  C10. The claim does not hold for a request whose query is \<open>null\<close> (or a number, a
  boolean, an array or an object): line 256 calls \<open>strip\<close> on the query before line 258
  tests the two fields, so such a request, without a session id as well as with one and
  whatever else it carries, ends in the \<open>AttributeError\<close> that nothing catches, not in the
  reply with status 400. The state is not touched.
\<close>

theorem null_query_is_not_rejected:
  "handle_conversation offline (fresh []) None (Some Json_null) = (fresh [], Server_error) \<and>
   handle_conversation offline (fresh []) (Some (ascii ''s1'')) (Some Json_null)
     = (fresh [], Server_error) \<and>
   handle_conversation offline (fresh []) None (Some Json_other) = (fresh [], Server_error) \<and>
   handle_conversation offline (fresh []) None None
     = (fresh [], Json_400_error (ascii ''Missing session ID or query''))"
  by (simp add: handle_conversation_def query_strip_cases)

section \<open>Starting a session\<close>

text \<open>
  C7. For a session id that is not empty, two calls of \<open>start_session\<close> in a row each
  leave the step of the session at 1, neither changes the table of farmers, and the
  farmer id the session held before the first call is the one it holds after each of
  them; with the same language the second call changes nothing at all.
\<close>

theorem start_session_idempotent:
  assumes "sid \<noteq> []"
  shows "let st1 = fst (start_session e1 st (Some sid) l1);
             st2 = fst (start_session e2 st1 (Some sid) l2)
         in map_option step (session_states st1 sid) = Some 1 \<and>
            map_option step (session_states st2 sid) = Some 1 \<and>
            farmers st1 = farmers st \<and> farmers st2 = farmers st \<and>
            Option.bind (session_states st1 sid) farmer_id
              = Option.bind (session_states st sid) farmer_id \<and>
            Option.bind (session_states st2 sid) farmer_id
              = Option.bind (session_states st sid) farmer_id \<and>
            (l1 = l2 \<longrightarrow> st2 = st1)"
  using assms
  by (simp add: start_session_accepted Let_def new_session_def split: option.splits)

theorem start_session_idempotent_witness:
  "ascii ''s1'' \<noteq> [] \<and>
   (let st = one_session (ascii ''s1'') (in_step 4 (Some 1))
               [ravi (Some 18.5) (Some 73.8) (Some (ascii ''blight''))];
        st1 = fst (start_session offline st (Some (ascii ''s1'')) (Some (ascii ''en'')));
        st2 = fst (start_session offline st1 (Some (ascii ''s1'')) (Some (ascii ''en'')))
    in map_option step (session_states st1 (ascii ''s1'')) = Some 1 \<and>
       map_option step (session_states st2 (ascii ''s1'')) = Some 1 \<and>
       farmers st2 = [ravi (Some 18.5) (Some 73.8) (Some (ascii ''blight''))] \<and>
       Option.bind (session_states st2 (ascii ''s1'')) farmer_id = Some 1 \<and>
       st2 = st1)"
  using start_session_idempotent
      [of "ascii ''s1''" offline
          "one_session (ascii ''s1'') (in_step 4 (Some 1))
             [ravi (Some 18.5) (Some 73.8) (Some (ascii ''blight''))]"
          "Some (ascii ''en'')" offline "Some (ascii ''en'')"]
  by (simp add: Let_def one_session_def in_step_def)

section \<open>The follow-up router and the step\<close>

text \<open>
  C9. A turn of a session at step 3 or above (so at step 4 or above) whose farmer is in
  the table with a true latitude is answered by \<open>get_active_chat_response\<close>, and the turn
  leaves the whole state as it was: the session is stored with the step it had, which the
  reply repeats as \<open>next_step\<close>.
\<close>

theorem router_keeps_step:
  assumes "session_states st sid = Some sd" and "4 \<le> step sd"
    and "sid \<noteq> []" and "strip q \<noteq> []"
    and "query_get (farmer_id sd) (farmers st) = Some f" and "truthy_float (lat f)"
  shows "let (st', reply) = handle_conversation e st (Some sid) (Some (Json_str q))
         in st' = st \<and> map_option step (session_states st' sid) = Some (step sd) \<and>
            reply = get_active_chat_response e st sid f (strip q) (lang sd) \<and>
            (reply = Server_error \<or>
             reply = Json_200 (text_response reply) (audio_url reply) (step sd))"
  using assms follow_up_turn [of st sid sd q f e]
  by (simp add: get_active_chat_response_def Let_def jsonify_reply_def split: option.splits)

theorem router_keeps_step_witness:
  "(let st = one_session (ascii ''s1'') (in_step 4 (Some 1))
               [ravi (Some 18.5) (Some 73.8) (Some (ascii ''blight''))];
        (st', reply) = handle_conversation offline st (Some (ascii ''s1''))
                         (Some (Json_str (ascii ''thanks'')))
    in st' = st \<and> map_option step (session_states st' (ascii ''s1'')) = Some 4 \<and>
       reply = Json_200 thanks_en (audio_url reply) 4)"
  using router_keeps_step
      [of "one_session (ascii ''s1'') (in_step 4 (Some 1))
             [ravi (Some 18.5) (Some 73.8) (Some (ascii ''blight''))]"
          "ascii ''s1''" "in_step 4 (Some 1)" "ascii ''thanks''"
          "ravi (Some 18.5) (Some 73.8) (Some (ascii ''blight''))" offline]
  by (simp add: Let_def one_session_def in_step_def query_get_def ravi_def truthy_float_def
      strip_def isspace_def get_active_chat_response_def active_chat_text_def
      translate_and_tts_offline jsonify_reply_def offline_def ascii_env_def ascii_lower_def
      truthy_str_def sublist_Cons_right kw_bazaar_def kw_keemat_def kw_mausam_def
      kw_taapmaan_def kw_mitti_def kw_dhanyavaad_def translate_and_tts_def
      split: prod.splits)

section \<open>Geocoding at step 2\<close>

text \<open>
  On a turn of a session at step 2 whose farmer is in the table, when the geocoder
  returns no location for the address of the farmer, the session is stored with step 1,
  the reply is built from the text that asks for a clearer address (it is the JSON body
  with that text and \<open>next_step\<close> 1 when the speech file was written), and the table of
  farmers is what it was, so the coordinates of the farmer stay as they were.
\<close>

lemma geocoding_failure_state_and_reply:
  assumes "session_states st sid = Some sd" and "step sd = 2"
    and "sid \<noteq> []" and "strip q \<noteq> []"
    and "query_get (farmer_id sd) (farmers st) = Some f"
    and "geolocator_geocode e (faddress f) = None"
  shows "let (st', reply) = handle_conversation e st (Some sid) (Some (Json_str q));
             clarify = (if lang sd = ascii ''hi'' then geocode_failed_hi else geocode_failed_en);
             saved = gtts_saves e clarify
                       (if lang sd = ascii ''en'' then ascii ''en'' else ascii ''hi'')
                       (ascii ''static/audio/response_'' @ sid @ ascii ''.mp3'')
         in map_option step (session_states st' sid) = Some 1 \<and>
            farmers st' = farmers st \<and>
            query_get (farmer_id sd) (farmers st') = Some f \<and>
            (saved \<longrightarrow> (\<exists>url. reply = Json_200 clarify url 1)) \<and>
            (\<not> saved \<longrightarrow> reply = Server_error)"
proof -
  have "geocode_address e (faddress f) = (None, None)"
    using assms(6) by (simp add: geocode_address_def)
  moreover have "\<not> (truthy_float None \<and> truthy_float None)"
    by (simp add: truthy_float_def)
  ultimately show ?thesis
    using assms(1-5)
    by (simp add: geocoding_failure_turn Let_def jsonify_reply_def translate_and_tts_def)
qed

text \<open>
  C4. The step and the coordinates are as the claim says; the reply is not, on a turn on
  which gTTS raises. \<open>translate_and_tts\<close> then returns \<open>None\<close> (lines 192 to 194), line
  349 stores step 1, and \<open>audio_path.replace\<close> in line 352 raises an \<open>AttributeError\<close>:
  the user gets no request to clarify the address. Here Ravi's session is at step 2, the
  geocoder finds nothing for Pune and gTTS fails; with gTTS working the same turn is
  answered with the clarification text.
\<close>

theorem clarification_needs_speech:
  "handle_conversation (ascii_env (\<lambda>a. None) RequestException RequestException False)
     (one_session (ascii ''s1'') (in_step 2 (Some 1)) [ravi None None None])
     (Some (ascii ''s1'')) (Some (Json_str (ascii ''blight'')))
     = (one_session (ascii ''s1'')
          ((in_step 2 (Some 1))\<lparr>problem_text := Some (ascii ''blight''), step := 1\<rparr>)
          [ravi None None None],
        Server_error) \<and>
   handle_conversation (ascii_env (\<lambda>a. None) RequestException RequestException True)
     (one_session (ascii ''s1'') (in_step 2 (Some 1)) [ravi None None None])
     (Some (ascii ''s1'')) (Some (Json_str (ascii ''blight'')))
     = (one_session (ascii ''s1'')
          ((in_step 2 (Some 1))\<lparr>problem_text := Some (ascii ''blight''), step := 1\<rparr>)
          [ravi None None None],
        Json_200 geocode_failed_en
          (replace (ascii ''static/'') (ascii ''/audio/'')
             (ascii ''static/audio/response_s1.mp3'')) 1)"
proof -
  let ?st = "one_session (ascii ''s1'') (in_step 2 (Some 1)) [ravi None None None]"
  have turn: "\<And>audio.
    handle_conversation (ascii_env (\<lambda>a. None) RequestException RequestException audio) ?st
      (Some (ascii ''s1'')) (Some (Json_str (ascii ''blight''))) =
    (set_session ?st (ascii ''s1'')
       ((in_step 2 (Some 1))\<lparr>problem_text := Some (strip (ascii ''blight'')), step := 1\<rparr>),
     jsonify_reply geocode_failed_en
       (translate_and_tts (ascii_env (\<lambda>a. None) RequestException RequestException audio)
          geocode_failed_en (ascii ''en'') (ascii ''s1'')) 1)"
    using geocoding_failure_turn
      [of ?st "ascii ''s1''" "in_step 2 (Some 1)" "ascii ''blight''" "ravi None None None"
          "ascii_env (\<lambda>a. None) RequestException RequestException _" None None]
    by (simp add: one_session_def in_step_def query_get_def ravi_def strip_def isspace_def
        geocode_address_def ascii_env_def truthy_float_def)
  have s: "strip (ascii ''blight'') = ascii ''blight''"
    by (simp add: strip_def isspace_def)
  show ?thesis
    unfolding turn s
    by (simp add: jsonify_reply_def translate_and_tts_def ascii_env_def)
qed

text \<open>
  C8. On a turn of a session at step 2 whose farmer is in the table, when the geocoder
  returns a location whose latitude or longitude is 0.0, the turn is the one of a failed
  geocoding: the session is stored with step 1, the reply is built from the text that
  asks for a clearer address, and the table of farmers is what it was. At step 3 and
  above a farmer whose stored latitude is 0.0 gets the reply of a farmer without
  latitude: status 400 with the request for the address.
\<close>

theorem falsy_coordinates_are_absent:
  assumes "session_states st sid = Some sd" and "sid \<noteq> []" and "strip q \<noteq> []"
    and "query_get (farmer_id sd) (farmers st) = Some f"
  shows "(step sd = 2 \<and> geolocator_geocode e (faddress f) = Some (x, y) \<and> (x = 0 \<or> y = 0) \<longrightarrow>
            (let (st', reply) = handle_conversation e st (Some sid) (Some (Json_str q));
                 clarify = (if lang sd = ascii ''hi'' then geocode_failed_hi
                            else geocode_failed_en)
             in map_option step (session_states st' sid) = Some 1 \<and>
                farmers st' = farmers st \<and>
                reply = jsonify_reply clarify (translate_and_tts e clarify (lang sd) sid) 1)) \<and>
         (3 \<le> step sd \<and> (lat f = Some 0 \<or> lat f = None) \<longrightarrow>
            handle_conversation e st (Some sid) (Some (Json_str q)) =
              (st, Json_400_text (if lang sd = ascii ''hi'' then provide_address_hi
                                  else provide_address_en) 1))"
proof (intro conjI impI)
  assume a: "step sd = 2 \<and> geolocator_geocode e (faddress f) = Some (x, y) \<and> (x = 0 \<or> y = 0)"
  then have "geocode_address e (faddress f) = (Some x, Some y)"
    by (simp add: geocode_address_def)
  moreover have "\<not> (truthy_float (Some x) \<and> truthy_float (Some y))"
    using a by (auto simp: truthy_float_def)
  ultimately show "let (st', reply) = handle_conversation e st (Some sid) (Some (Json_str q));
                 clarify = (if lang sd = ascii ''hi'' then geocode_failed_hi
                            else geocode_failed_en)
             in map_option step (session_states st' sid) = Some 1 \<and>
                farmers st' = farmers st \<and>
                reply = jsonify_reply clarify (translate_and_tts e clarify (lang sd) sid) 1"
    using assms a by (simp add: geocoding_failure_turn Let_def)
next
  assume "3 \<le> step sd \<and> (lat f = Some 0 \<or> lat f = None)"
  then show "handle_conversation e st (Some sid) (Some (Json_str q)) =
              (st, Json_400_text (if lang sd = ascii ''hi'' then provide_address_hi
                                  else provide_address_en) 1)"
    using assms missing_coordinates_turn [of st sid sd q e]
    by (auto simp: truthy_float_def)
qed

theorem falsy_coordinates_are_absent_witness:
  "(let st = one_session (ascii ''s1'') (in_step 2 (Some 1)) [ravi None None None];
        e = ascii_env (\<lambda>a. Some (0, 73.8)) RequestException RequestException True;
        (st', reply) = handle_conversation e st (Some (ascii ''s1'')) (Some (Json_str (ascii ''blight'')))
    in map_option step (session_states st' (ascii ''s1'')) = Some 1 \<and>
       farmers st' = [ravi None None None] \<and>
       reply = Json_200 geocode_failed_en (audio_url reply) 1) \<and>
   (let st = one_session (ascii ''s1'') (in_step 4 (Some 1))
               [ravi (Some 0) (Some 73.8) (Some (ascii ''blight''))]
    in handle_conversation offline st (Some (ascii ''s1'')) (Some (Json_str (ascii ''weather'')))
         = (st, Json_400_text provide_address_en 1))"
  using falsy_coordinates_are_absent
      [of "one_session (ascii ''s1'') (in_step 2 (Some 1)) [ravi None None None]"
          "ascii ''s1''" "in_step 2 (Some 1)" "ascii ''blight''" "ravi None None None"
          "ascii_env (\<lambda>a. Some (0, 73.8)) RequestException RequestException True" 0 "73.8"]
    falsy_coordinates_are_absent
      [of "one_session (ascii ''s1'') (in_step 4 (Some 1))
             [ravi (Some 0) (Some 73.8) (Some (ascii ''blight''))]"
          "ascii ''s1''" "in_step 4 (Some 1)" "ascii ''weather''"
          "ravi (Some 0) (Some 73.8) (Some (ascii ''blight''))" offline]
  by (simp add: Let_def one_session_def in_step_def query_get_def ravi_def strip_def
      isspace_def jsonify_reply_def ascii_env_def translate_and_tts_def split: prod.splits)

section \<open>The aggregator\<close>

text \<open>
  For a stored session, when one of the weather and the soil provider ends in a
  \<open>RequestException\<close> and the other one returns its sentence, \<open>get_api_advice\<close> stores
  step 4 and builds its reply from the advisory in which the sentence of the provider
  that answered and the report of the vegetation provider stand verbatim under their
  headers and the localized error text stands under the header of the provider that
  failed; the reply is the JSON body with that advisory when the speech file was written.
\<close>

lemma request_exception_is_absorbed:
  assumes "session_states st sid = Some sd"
  shows "(let weather_error = (if lg = ascii ''hi'' then weather_error_hi else weather_error_en);
              soil_error = (if lg = ascii ''hi'' then soil_error_hi else soil_error_en);
              ndvi = get_ndvi_advice la lo (ascii ''rice'') lg;
              composed = (\<lambda>weather_info soil_info.
                let advice = final_advice lg problem weather_info soil_info ndvi
                in get_api_advice e st sid la lo problem lg =
                     (set_session st sid (sd\<lparr>step := 4\<rparr>),
                      jsonify_reply advice (translate_and_tts e advice lg sid) 4) \<and>
                   (gtts_saves e advice (if lg = ascii ''en'' then ascii ''en'' else ascii ''hi'')
                      (ascii ''static/audio/response_'' @ sid @ ascii ''.mp3'')
                    \<longrightarrow> (\<exists>url. snd (get_api_advice e st sid la lo problem lg)
                                 = Json_200 advice url 4)) \<and>
                   (if lg = ascii ''hi''
                    then sublist (advice_weather_hi weather_info) advice \<and>
                         sublist (advice_soil_hi soil_info) advice \<and>
                         sublist (advice_ndvi_hi ndvi) advice
                    else sublist (advice_weather_en weather_info) advice \<and>
                         sublist (advice_soil_en soil_info) advice \<and>
                         sublist (advice_ndvi_en ndvi) advice))
          in (open_meteo e la lo lg = RequestException \<and> soilgrids e la lo lg = Sentence answer
                \<longrightarrow> composed weather_error answer) \<and>
             (open_meteo e la lo lg = Sentence answer \<and> soilgrids e la lo lg = RequestException
                \<longrightarrow> composed answer soil_error))"
  using assms
  by (simp add: get_api_advice_known get_current_weather_def get_soil_data_def
      final_advice_sections jsonify_reply_def translate_and_tts_def Let_def)

text \<open>
  C2. The claim does not hold for a provider that fails with another exception than a
  \<open>RequestException\<close>. When the weather service answers with status 200 and a body of
  another shape than the one lines 80 to 85 read (the JSON \<open>[]\<close>, say, on which
  \<open>data.get\<close> raises an \<open>AttributeError\<close>), the \<open>except\<close> clause of line 91 does not
  catch the exception and \<open>get_api_advice\<close> ends with it: no advisory is returned and step
  4 is not stored, although the soil provider and the vegetation provider have their
  sections. The soil provider does the same to the aggregation (lines 118 to 132 and
  138). Ravi's turn at step 2 with Pune geocoded ends in the exception after the
  coordinates are committed, with the session at the step 3 of line 328.
\<close>

theorem provider_exception_aborts_advice:
  "get_api_advice
     (ascii_env (\<lambda>a. Some (18.5, 73.8)) OtherException (Sentence (ascii ''loam'')) True)
     (one_session (ascii ''s1'') (in_step 3 (Some 1))
        [ravi (Some 18.5) (Some 73.8) (Some (ascii ''blight''))])
     (ascii ''s1'') (Some 18.5) (Some 73.8) (ascii ''blight'') (ascii ''en'')
     = (one_session (ascii ''s1'') (in_step 3 (Some 1))
          [ravi (Some 18.5) (Some 73.8) (Some (ascii ''blight''))],
        Server_error) \<and>
   get_api_advice
     (ascii_env (\<lambda>a. Some (18.5, 73.8)) (Sentence (ascii ''sunny'')) OtherException True)
     (one_session (ascii ''s1'') (in_step 3 (Some 1))
        [ravi (Some 18.5) (Some 73.8) (Some (ascii ''blight''))])
     (ascii ''s1'') (Some 18.5) (Some 73.8) (ascii ''blight'') (ascii ''en'')
     = (one_session (ascii ''s1'') (in_step 3 (Some 1))
          [ravi (Some 18.5) (Some 73.8) (Some (ascii ''blight''))],
        Server_error) \<and>
   handle_conversation
     (ascii_env (\<lambda>a. Some (18.5, 73.8)) OtherException (Sentence (ascii ''loam'')) True)
     (one_session (ascii ''s1'') (in_step 2 (Some 1)) [ravi None None None])
     (Some (ascii ''s1'')) (Some (Json_str (ascii ''blight'')))
     = (one_session (ascii ''s1'')
          ((in_step 2 (Some 1))\<lparr>problem_text := Some (ascii ''blight''), step := 3\<rparr>)
          [ravi (Some 18.5) (Some 73.8) (Some (ascii ''blight''))],
        Server_error)"
proof -
  let ?e = "ascii_env (\<lambda>a. Some (18.5, 73.8)) OtherException (Sentence (ascii ''loam'')) True"
  let ?e' = "ascii_env (\<lambda>a. Some (18.5, 73.8)) (Sentence (ascii ''sunny'')) OtherException True"
  let ?st = "one_session (ascii ''s1'') (in_step 2 (Some 1)) [ravi None None None]"
  have w: "\<And>la lo lg. get_current_weather ?e la lo lg = None"
    by (simp add: get_current_weather_def ascii_env_def)
  have s: "\<And>la lo lg. get_soil_data ?e' la lo lg = None"
    by (simp add: get_soil_data_def ascii_env_def)
  have b: "strip (ascii ''blight'') = ascii ''blight''"
    by (simp add: strip_def isspace_def)
  have turn: "handle_conversation ?e ?st (Some (ascii ''s1'')) (Some (Json_str (ascii ''blight'')))
      = get_api_advice ?e
          (set_session
             (?st\<lparr>farmers := commit_problem (fid (ravi None None None)) (Some 18.5) (Some 73.8)
                                (strip (ascii ''blight'')) (farmers ?st)\<rparr>)
             (ascii ''s1'')
             ((in_step 2 (Some 1))\<lparr>problem_text := Some (strip (ascii ''blight'')), step := 3\<rparr>))
          (ascii ''s1'') (Some 18.5) (Some 73.8) (strip (ascii ''blight'')) (lang (in_step 2 (Some 1)))"
    using geocoding_success_turn
      [of ?st "ascii ''s1''" "in_step 2 (Some 1)" "ascii ''blight''" "ravi None None None" ?e
          "Some 18.5" "Some 73.8"]
    by (simp add: one_session_def in_step_def query_get_def ravi_def strip_def isspace_def
        geocode_address_def ascii_env_def truthy_float_def)
  have g: "\<And>st sid la lo p lg. get_api_advice ?e st sid la lo p lg = (st, Server_error)"
    by (rule get_api_advice_raises) (rule disjI1, rule w)
  have g': "\<And>st sid la lo p lg. get_api_advice ?e' st sid la lo p lg = (st, Server_error)"
    by (rule get_api_advice_raises) (rule disjI2, rule s)
  have committed:
    "set_session
       (?st\<lparr>farmers := commit_problem (fid (ravi None None None)) (Some 18.5) (Some 73.8)
                          (ascii ''blight'') (farmers ?st)\<rparr>)
       (ascii ''s1'')
       ((in_step 2 (Some 1))\<lparr>problem_text := Some (ascii ''blight''), step := 3\<rparr>)
     = one_session (ascii ''s1'')
         ((in_step 2 (Some 1))\<lparr>problem_text := Some (ascii ''blight''), step := 3\<rparr>)
         [ravi (Some 18.5) (Some 73.8) (Some (ascii ''blight''))]"
    by (simp add: one_session_def set_session_def commit_problem_def ravi_def)
  show ?thesis
    unfolding turn b g g' committed by simp
qed

section \<open>The follow-up router\<close>

text \<open>
  C3, as amended. \<open>get_active_chat_response\<close> chooses its answer from the lower-cased
  input by substring tests, in the order market, weather, soil, thanks, fallback, and
  the first test that holds wins. The market test also needs a \<open>last_problem_summary\<close>
  that is neither \<open>None\<close> nor the empty string; without one the input falls through to
  the later tests. So an input with a market word and a weather word gets the market
  prices when the summary is a non-empty string and the weather otherwise. Two inputs
  with the same lower-case form get the same answer.
\<close>

theorem follow_up_priority:
  "let query = str_lower e q;
       market = (\<exists>k \<in> set [kw_bazaar, kw_keemat, ascii ''price'', ascii ''market'']. sublist k query);
       weather = (\<exists>k \<in> set [kw_mausam, ascii ''weather'', kw_taapmaan, ascii ''temperature''].
                    sublist k query);
       soil = (\<exists>k \<in> set [kw_mitti, ascii ''soil'', ascii ''ph'']. sublist k query);
       thanks = (\<exists>k \<in> set [kw_dhanyavaad, ascii ''thanks'']. sublist k query);
       to_market = (market \<and> truthy_str (last_problem_summary f));
       answer = active_chat_text e f q lg
   in (to_market \<longrightarrow> answer = Some (get_market_prices e (ascii ''wheat'') lg)) \<and>
      (\<not> to_market \<and> weather \<longrightarrow> answer = get_current_weather e (lat f) (lon f) lg) \<and>
      (\<not> to_market \<and> \<not> weather \<and> soil \<longrightarrow> answer = get_soil_data e (lat f) (lon f) lg) \<and>
      (\<not> to_market \<and> \<not> weather \<and> \<not> soil \<and> thanks \<longrightarrow>
         answer = Some (if lg = ascii ''hi'' then thanks_hi else thanks_en)) \<and>
      (\<not> to_market \<and> \<not> weather \<and> \<not> soil \<and> \<not> thanks \<longrightarrow>
         answer = Some (if lg = ascii ''hi'' then fallback_hi else fallback_en)) \<and>
      (market \<and> weather \<longrightarrow>
         answer = (if truthy_str (last_problem_summary f)
                   then Some (get_market_prices e (ascii ''wheat'') lg)
                   else get_current_weather e (lat f) (lon f) lg)) \<and>
      (str_lower e q' = query \<longrightarrow> active_chat_text e f q' lg = answer)"
  unfolding Let_def active_chat_text_def
  apply (intro conjI)
  subgoal by simp
  subgoal by auto
  subgoal by auto
  subgoal by auto
  subgoal by auto
  subgoal by auto
  subgoal by simp
  done

theorem follow_up_priority_witness:
  "(let e = ascii_env (\<lambda>a. None) (Sentence (ascii ''sunny'')) (Sentence (ascii ''loam'')) True;
        known = ravi (Some 18.5) (Some 73.8) (Some (ascii ''blight''));
        unknown = ravi (Some 18.5) (Some 73.8) None
    in active_chat_text e known (ascii ''Price and Weather'') (ascii ''en'')
         = Some (get_market_prices e (ascii ''wheat'') (ascii ''en'')) \<and>
       active_chat_text e unknown (ascii ''Price and Weather'') (ascii ''en'')
         = Some (ascii ''sunny'') \<and>
       active_chat_text e known (ascii ''soil pH?'') (ascii ''en'') = Some (ascii ''loam'') \<and>
       active_chat_text e known (ascii ''Thanks!'') (ascii ''en'') = Some thanks_en \<and>
       active_chat_text e known (ascii ''hello'') (ascii ''en'') = Some fallback_en)"
  using
    follow_up_priority
      [of "ascii_env (\<lambda>a. None) (Sentence (ascii ''sunny'')) (Sentence (ascii ''loam'')) True"
          "ascii ''Price and Weather''"
          "ravi (Some 18.5) (Some 73.8) (Some (ascii ''blight''))" "ascii ''en''"]
    follow_up_priority
      [of "ascii_env (\<lambda>a. None) (Sentence (ascii ''sunny'')) (Sentence (ascii ''loam'')) True"
          "ascii ''Price and Weather''" "ravi (Some 18.5) (Some 73.8) None" "ascii ''en''"]
    follow_up_priority
      [of "ascii_env (\<lambda>a. None) (Sentence (ascii ''sunny'')) (Sentence (ascii ''loam'')) True"
          "ascii ''soil pH?''"
          "ravi (Some 18.5) (Some 73.8) (Some (ascii ''blight''))" "ascii ''en''"]
    follow_up_priority
      [of "ascii_env (\<lambda>a. None) (Sentence (ascii ''sunny'')) (Sentence (ascii ''loam'')) True"
          "ascii ''Thanks!''"
          "ravi (Some 18.5) (Some 73.8) (Some (ascii ''blight''))" "ascii ''en''"]
    follow_up_priority
      [of "ascii_env (\<lambda>a. None) (Sentence (ascii ''sunny'')) (Sentence (ascii ''loam'')) True"
          "ascii ''hello''"
          "ravi (Some 18.5) (Some 73.8) (Some (ascii ''blight''))" "ascii ''en''"]
  by (simp add: Let_def ravi_def ascii_env_def ascii_lower_def truthy_str_def
      get_current_weather_def get_soil_data_def sublist_Cons_right
      kw_bazaar_def kw_keemat_def kw_mausam_def kw_taapmaan_def kw_mitti_def kw_dhanyavaad_def)

text \<open>
  C3 as stated fails for a farmer whose \<open>last_problem_summary\<close> is the empty string: the
  summary is not \<open>None\<close>, the input \<open>price and weather\<close> holds a market word and a
  weather word, and the answer is the weather sentence, not the market prices.
\<close>

theorem empty_summary_falls_through_counterexample:
  "last_problem_summary (ravi (Some 18.5) (Some 73.8) (Some [])) \<noteq> None \<and>
   sublist (ascii ''price'') (ascii_lower (ascii ''price and weather'')) \<and>
   sublist (ascii ''weather'') (ascii_lower (ascii ''price and weather'')) \<and>
   active_chat_text
     (ascii_env (\<lambda>a. None) (Sentence (ascii ''sunny'')) RequestException True)
     (ravi (Some 18.5) (Some 73.8) (Some [])) (ascii ''price and weather'') (ascii ''en'')
     = Some (ascii ''sunny'') \<and>
   get_market_prices
     (ascii_env (\<lambda>a. None) (Sentence (ascii ''sunny'')) RequestException True)
     (ascii ''wheat'') (ascii ''en'') \<noteq> ascii ''sunny''"
  by (simp add: ravi_def active_chat_text_def ascii_env_def ascii_lower_def truthy_str_def
      get_current_weather_def get_market_prices_def prices_def market_price_en_def
      sublist_Cons_right kw_mausam_def kw_bazaar_def kw_keemat_def)

section \<open>Name and address at step 1\<close>

text \<open>
  C5, as amended. A turn of a session at step 1 parses the input into a name and an
  address and looks the pair up in the table. A match whose \<open>last_problem_summary\<close> is
  neither \<open>None\<close> nor the empty string stores step 3; a match with no such summary
  stores step 2; without a match a new row with the name, the address and the language
  of the session is appended and step 2 is stored. A match leaves the table as it was.
  In every branch the table then holds a row with that name and address, and the
  session refers to its id. When \<open>translate_and_tts\<close> returns the path of the speech
  file, the reply is the JSON body with the step that was stored and with the recap of
  the earlier problem in the first branch, the welcome to the returning user in the
  second and the thanks to the new user in the third.
\<close>

theorem name_and_address_turn:
  assumes "session_states st sid = Some sd" and "step sd = 1"
    and "sid \<noteq> []" and "strip q \<noteq> []"
    and "parse_name_address e (strip q) = (nm, addr)"
  shows "let (st', reply) = handle_conversation e st (Some sid) (Some (Json_str q));
             sd' = sd\<lparr>name := Some nm, address := Some addr\<rparr>;
             said = (\<lambda>text nxt.
                       \<forall>audio_path. translate_and_tts e text (lang sd) sid = Some audio_path \<longrightarrow>
                         reply = Json_200 text
                                   (replace (ascii ''static/'') (ascii ''/audio/'') audio_path) nxt)
         in (case filter_by_first nm addr (farmers st) of
               Some f \<Rightarrow>
                 farmers st' = farmers st \<and>
                 (if truthy_str (last_problem_summary f)
                  then st' = set_session st sid (sd'\<lparr>farmer_id := Some (fid f), step := 3\<rparr>) \<and>
                       said (if lang sd = ascii ''hi''
                             then recap_hi (fname f) (format_str (last_problem_summary f))
                             else recap_en (fname f) (format_str (last_problem_summary f))) 3
                  else st' = set_session st sid (sd'\<lparr>farmer_id := Some (fid f), step := 2\<rparr>) \<and>
                       said (if lang sd = ascii ''hi'' then welcome_back_hi (fname f)
                             else welcome_back_en (fname f)) 2)
             | None \<Rightarrow>
                 st' = set_session
                         (st\<lparr>farmers := farmers st @
                            [\<lparr>fid = next_id (farmers st), fname = nm, faddress = addr,
                              language = Some (lang sd), lat = None, lon = None,
                              last_problem_summary = None\<rparr>]\<rparr>)
                         sid (sd'\<lparr>step := 2, farmer_id := Some (next_id (farmers st))\<rparr>) \<and>
                 said (if lang sd = ascii ''hi'' then thank_you_hi nm else thank_you_en nm) 2) \<and>
            (\<exists>g. filter_by_first nm addr (farmers st') = Some g \<and>
                 fname g = nm \<and> faddress g = addr \<and>
                 Option.bind (session_states st' sid) farmer_id = Some (fid g))"
proof (cases "filter_by_first nm addr (farmers st)")
  case None
  then show ?thesis
    using assms
    by (simp add: step_1_turn step_1_new Let_def filter_by_first_new_row add_farmer_def
        jsonify_reply_def)
next
  case (Some f)
  then show ?thesis
    using assms filter_by_first_fields [OF Some]
    by (simp add: step_1_turn step_1_found Let_def jsonify_reply_def)
qed

theorem name_and_address_turn_witness:
  "(let sd = new_session\<lparr>lang := ascii ''en'', step := 1\<rparr>;
        sd' = sd\<lparr>name := Some (ascii ''Ravi''), address := Some (ascii ''Pune'')\<rparr>;
        known = ravi (Some 18.5) (Some 73.8) (Some (ascii ''blight''));
        unknown = ravi None None None;
        turn = (\<lambda>rows. handle_conversation offline (one_session (ascii ''s1'') sd rows)
                  (Some (ascii ''s1'')) (Some (Json_str (ascii ''Ravi, Pune''))))
    in fst (turn [known])
         = one_session (ascii ''s1'') (sd'\<lparr>farmer_id := Some 1, step := 3\<rparr>) [known] \<and>
       fst (turn [unknown])
         = one_session (ascii ''s1'') (sd'\<lparr>farmer_id := Some 1, step := 2\<rparr>) [unknown] \<and>
       fst (turn [])
         = one_session (ascii ''s1'') (sd'\<lparr>step := 2, farmer_id := Some 1\<rparr>)
             [\<lparr>fid = 1, fname = ascii ''Ravi'', faddress = ascii ''Pune'',
               language = Some (ascii ''en''), lat = None, lon = None,
               last_problem_summary = None\<rparr>] \<and>
       snd (turn [known])
         = Json_200 (recap_en (ascii ''Ravi'') (ascii ''blight''))
             (ascii ''/audio/audio/response_s1.mp3'') 3 \<and>
       snd (turn [unknown])
         = Json_200 (welcome_back_en (ascii ''Ravi'')) (ascii ''/audio/audio/response_s1.mp3'') 2 \<and>
       snd (turn [])
         = Json_200 (thank_you_en (ascii ''Ravi'')) (ascii ''/audio/audio/response_s1.mp3'') 2)"
  using
    name_and_address_turn
      [of "one_session (ascii ''s1'') (new_session\<lparr>lang := ascii ''en'', step := 1\<rparr>)
             [ravi (Some 18.5) (Some 73.8) (Some (ascii ''blight''))]"
          "ascii ''s1''" "new_session\<lparr>lang := ascii ''en'', step := 1\<rparr>" "ascii ''Ravi, Pune''"
          offline "ascii ''Ravi''" "ascii ''Pune''"]
    name_and_address_turn
      [of "one_session (ascii ''s1'') (new_session\<lparr>lang := ascii ''en'', step := 1\<rparr>)
             [ravi None None None]"
          "ascii ''s1''" "new_session\<lparr>lang := ascii ''en'', step := 1\<rparr>" "ascii ''Ravi, Pune''"
          offline "ascii ''Ravi''" "ascii ''Pune''"]
    name_and_address_turn
      [of "one_session (ascii ''s1'') (new_session\<lparr>lang := ascii ''en'', step := 1\<rparr>) []"
          "ascii ''s1''" "new_session\<lparr>lang := ascii ''en'', step := 1\<rparr>" "ascii ''Ravi, Pune''"
          offline "ascii ''Ravi''" "ascii ''Pune''"]
    parse_ravi
  by (simp add: Let_def one_session_def new_session_def ravi_def strip_def isspace_def
      filter_by_first_def truthy_str_def set_session_def next_id_def format_str_def
      translate_and_tts_offline replace_def split: prod.splits)

text \<open>
  C5 as stated fails for a matching farmer whose \<open>last_problem_summary\<close> is the empty
  string: the summary is not \<open>None\<close>, and the session goes to step 2, not to step 3.
\<close>

theorem empty_summary_goes_to_step_2_counterexample:
  "filter_by_first (ascii ''Ravi'') (ascii ''Pune'') [ravi None None (Some [])]
     = Some (ravi None None (Some [])) \<and>
   last_problem_summary (ravi None None (Some [])) \<noteq> None \<and>
   map_option step
     (session_states
        (fst (handle_conversation offline
                (one_session (ascii ''s1'') (new_session\<lparr>lang := ascii ''en'', step := 1\<rparr>)
                   [ravi None None (Some [])])
                (Some (ascii ''s1'')) (Some (Json_str (ascii ''Ravi, Pune'')))))
        (ascii ''s1'')) = Some 2"
proof -
  let ?sd = "new_session\<lparr>lang := ascii ''en'', step := 1\<rparr>"
  let ?st = "one_session (ascii ''s1'') ?sd [ravi None None (Some [])]"
  have found: "filter_by_first (ascii ''Ravi'') (ascii ''Pune'') (farmers ?st)
                 = Some (ravi None None (Some []))"
    by (simp add: filter_by_first_def one_session_def ravi_def)
  have "handle_conversation offline ?st (Some (ascii ''s1'')) (Some (Json_str (ascii ''Ravi, Pune'')))
          = step_1 offline ?st (ascii ''s1'') ?sd (ascii ''Ravi, Pune'')"
    using step_1_turn [of ?st "ascii ''s1''" ?sd "ascii ''Ravi, Pune''" offline]
    by (simp add: one_session_def new_session_def strip_def isspace_def)
  then show ?thesis
    using step_1_found [OF parse_ravi found, of "ascii ''s1''" ?sd] found
    by (simp add: Let_def ravi_def truthy_str_def one_session_def)
qed

text \<open>
  C6, as amended. For an input that is not empty after stripping, the parse never fails.
  With a comma in the input the parts between the commas are stripped and title-cased,
  the first is the name and the others, joined by single spaces, are the address, which
  is empty when nothing but white space follows the commas. Without a comma the input is
  split at white space: the first word is the name, the other words joined by single
  spaces are the address, and the address is \<open>Unknown Address\<close> when the input is a
  single word. A turn of a session at step 1 always stores step 2 or step 3.
\<close>

theorem name_and_address_parsing:
  assumes "farmer_input = strip q" and "farmer_input \<noteq> []"
  shows "let norm = (\<lambda>p. str_title e (strip p));
             by_comma = split_on 44 farmer_input;
             by_space = split_ws farmer_input
         in by_comma \<noteq> [] \<and> by_space \<noteq> [] \<and>
            (44 \<in> set farmer_input \<longrightarrow>
               parse_name_address e farmer_input =
                 (norm (hd by_comma), join (ascii '' '') (map norm (tl by_comma)))) \<and>
            (44 \<notin> set farmer_input \<longrightarrow>
               parse_name_address e farmer_input =
                 (norm (hd by_space),
                  if length by_space = 1 then ascii ''Unknown Address''
                  else join (ascii '' '') (map norm (tl by_space)))) \<and>
            (session_states st sid = Some sd \<and> step sd = 1 \<and> sid \<noteq> [] \<longrightarrow>
               map_option step
                 (session_states (fst (handle_conversation e st (Some sid) (Some (Json_str q)))) sid)
                 \<in> {Some 2, Some 3})"
proof -
  have c: "split_on 44 farmer_input \<noteq> []"
    using split_on_length [of 44 farmer_input] by auto
  have w: "split_ws farmer_input \<noteq> []"
    using strip_has_text [of q] assms by (auto simp: split_ws_empty)
  have p1: "44 \<in> set farmer_input \<Longrightarrow>
      parse_name_address e farmer_input =
        (str_title e (strip (hd (split_on 44 farmer_input))),
         join (ascii '' '') (map (\<lambda>p. str_title e (strip p)) (tl (split_on 44 farmer_input))))"
    using c split_on_single [of 44 farmer_input]
    by (cases "split_on 44 farmer_input") (auto simp: parse_name_address_def Let_def drop_Suc)
  have p2: "44 \<notin> set farmer_input \<Longrightarrow>
      parse_name_address e farmer_input =
        (str_title e (strip (hd (split_ws farmer_input))),
         if length (split_ws farmer_input) = 1 then ascii ''Unknown Address''
         else join (ascii '' '') (map (\<lambda>p. str_title e (strip p)) (tl (split_ws farmer_input))))"
    using w split_on_single [of 44 farmer_input]
    by (cases "split_ws farmer_input")
       (auto simp: parse_name_address_def Let_def drop_Suc map_tl)
  have s: "session_states st sid = Some sd \<and> step sd = 1 \<and> sid \<noteq> [] \<longrightarrow>
      map_option step (session_states (fst (handle_conversation e st (Some sid) (Some (Json_str q)))) sid)
        \<in> {Some 2, Some 3}"
    using assms step_1_step [of e st sid sd "strip q"] by (auto simp: step_1_turn)
  show ?thesis
    unfolding Let_def using c w p1 p2 s by blast
qed

theorem name_and_address_parsing_witness:
  "strip (ascii '' ravi kumar,  pune , mh '') \<noteq> [] \<and>
   parse_name_address offline (strip (ascii '' ravi kumar,  pune , mh ''))
     = (ascii ''Ravi Kumar'', ascii ''Pune Mh'') \<and>
   parse_name_address offline (strip (ascii ''ravi  kumar pune''))
     = (ascii ''Ravi'', ascii ''Kumar Pune'') \<and>
   parse_name_address offline (strip (ascii ''ravi'')) = (ascii ''Ravi'', ascii ''Unknown Address'') \<and>
   map_option step
     (session_states
        (fst (handle_conversation offline (one_session (ascii ''s1'') (in_step 1 None) [])
                (Some (ascii ''s1'')) (Some (Json_str (ascii ''ravi'')))))
        (ascii ''s1''))
     \<in> {Some 2, Some 3}"
  using
    name_and_address_parsing
      [of "strip (ascii '' ravi kumar,  pune , mh '')" "ascii '' ravi kumar,  pune , mh ''" offline]
    name_and_address_parsing
      [of "strip (ascii ''ravi  kumar pune'')" "ascii ''ravi  kumar pune''" offline]
    name_and_address_parsing
      [of "strip (ascii ''ravi'')" "ascii ''ravi''" offline
          "one_session (ascii ''s1'') (in_step 1 None) []" "ascii ''s1''" "in_step 1 None"]
  by (simp add: Let_def strip_def isspace_def offline_def ascii_env_def ascii_title_def
      one_session_def in_step_def)

text \<open>
  C6 as stated fails for the input \<open>Ravi,\<close>: nothing follows the comma, and the address is
  the empty string, not \<open>Unknown Address\<close>.
\<close>

theorem trailing_comma_address_counterexample:
  "strip (ascii ''Ravi,'') \<noteq> [] \<and>
   parse_name_address offline (strip (ascii ''Ravi,'')) = (ascii ''Ravi'', []) \<and>
   snd (parse_name_address offline (strip (ascii ''Ravi,''))) \<noteq> ascii ''Unknown Address''"
  by (simp add: parse_name_address_def strip_def isspace_def offline_def ascii_env_def
      ascii_title_def)

section \<open>The step of a session\<close>

subsection \<open>The stored step stays among 0, 1, 2, 3 and 4\<close>

lemma steps_valid_set_session:
  "steps_valid st \<Longrightarrow> step sd \<in> {0, 1, 2, 3, 4} \<Longrightarrow> steps_valid (set_session st sid sd)"
  by (auto simp: steps_valid_def set_session_def ran_def)

lemma steps_valid_farmers [simp]: "steps_valid (st\<lparr>farmers := rows\<rparr>) = steps_valid st"
  by (simp add: steps_valid_def)

lemma steps_valid_get_session_data:
  "steps_valid st \<Longrightarrow> steps_valid (fst (get_session_data st sid))"
  using steps_valid_set_session [of st new_session sid]
  by (simp add: get_session_data_def set_session_def new_session_def split: option.splits)

lemma steps_valid_start_session:
  "steps_valid st \<Longrightarrow> steps_valid (fst (start_session e st session_id lang_field))"
proof (cases "\<exists>sid. session_id = Some sid \<and> sid \<noteq> []")
  case True
  then obtain sid where "session_id = Some sid" and "sid \<noteq> []" by blast
  moreover assume "steps_valid st"
  ultimately show ?thesis
    by (simp add: start_session_accepted steps_valid_set_session)
next
  case False
  moreover assume "steps_valid st"
  ultimately show ?thesis
    by (auto simp: start_session_def Let_def split: option.splits)
qed

lemma steps_valid_step_1:
  "steps_valid st \<Longrightarrow> steps_valid (fst (step_1 e st sid sd farmer_input))"
  by (auto simp: step_1_def Let_def intro!: steps_valid_set_session
      split: prod.splits option.splits)

lemma steps_valid_get_api_advice:
  "steps_valid st \<Longrightarrow> steps_valid (fst (get_api_advice e st sid la lo problem lg))"
  by (auto simp: get_api_advice_def Let_def intro!: steps_valid_set_session
      split: option.splits)

lemma steps_valid_step_2:
  "steps_valid st \<Longrightarrow> steps_valid (fst (step_2 e st sid sd farmer_input))"
  by (auto simp: step_2_def Let_def
      intro!: steps_valid_set_session steps_valid_get_api_advice
      split: prod.splits option.splits)

lemma steps_valid_step_3_up:
  "steps_valid st \<Longrightarrow> steps_valid (fst (step_3_up e st sid sd farmer_input))"
  by (simp add: step_3_up_def Let_def split: option.splits)

lemma steps_valid_handle_conversation:
  assumes "steps_valid st"
  shows "steps_valid (fst (handle_conversation e st session_id query_field))"
proof (cases "\<exists>sid farmer_input. session_id = Some sid \<and> sid \<noteq> [] \<and>
                query_strip query_field = Some farmer_input \<and> farmer_input \<noteq> []")
  case False
  then show ?thesis
    using assms by (auto simp: handle_conversation_def Let_def split: option.splits)
next
  case True
  then obtain sid farmer_input where sid: "session_id = Some sid" "sid \<noteq> []"
    "query_strip query_field = Some farmer_input" "farmer_input \<noteq> []" by blast
  obtain st1 sd where g: "get_session_data st sid = (st1, sd)" by (cases "get_session_data st sid")
  have v: "steps_valid st1"
    using steps_valid_get_session_data [OF assms, of sid] g by simp
  show ?thesis
    using sid g v steps_valid_step_1 [OF v] steps_valid_step_2 [OF v] steps_valid_step_3_up [OF v]
    by (simp add: handle_conversation_def Let_def)
qed

lemma steps_valid_run: "steps_valid st \<Longrightarrow> steps_valid (run st calls)"
proof (induction calls arbitrary: st)
  case Nil
  then show ?case by simp
next
  case (Cons c calls)
  have "steps_valid (fst (serve st c))"
    using Cons.prems
    by (cases c) (simp_all add: steps_valid_start_session steps_valid_handle_conversation)
  then show ?case using Cons.IH by simp
qed

lemma steps_valid_fresh: "steps_valid (fresh rows)"
  by (simp add: steps_valid_def fresh_def)

lemma stored_step_in_range:
  "session_states (run (fresh rows) calls) sid = Some sd \<Longrightarrow> step sd \<in> {0, 1, 2, 3, 4}"
  using steps_valid_run [OF steps_valid_fresh, of rows calls]
  by (auto simp: steps_valid_def ran_def)

subsection \<open>The run without failures: 1, 2, 4\<close>

lemma fold_max_bounds:
  "(a::int) \<le> fold max xs a \<and> (\<forall>x \<in> set xs. x \<le> fold max xs a)"
proof (induction xs arbitrary: a)
  case Nil
  then show ?case by simp
next
  case (Cons x xs)
  have "max x a \<le> fold max xs (max x a)" and "\<forall>y \<in> set xs. y \<le> fold max xs (max x a)"
    using Cons.IH [of "max x a"] by simp_all
  then show ?case by auto
qed

lemma next_id_unused: "f \<in> set rows \<Longrightarrow> fid f < next_id rows"
proof (cases rows)
  case Nil
  then show "f \<in> set rows \<Longrightarrow> fid f < next_id rows" by simp
next
  case (Cons g gs)
  assume "f \<in> set rows"
  then have "fid f \<le> fold max (map fid gs) (fid g)"
    using Cons fold_max_bounds [of "fid g" "map fid gs"] by auto
  then show "fid f < next_id rows" using Cons by (simp add: next_id_def)
qed

lemma query_get_new_row:
  "query_get (Some (next_id rows)) (add_farmer nm addr lg rows) =
     Some \<lparr>fid = next_id rows, fname = nm, faddress = addr, language = Some lg,
           lat = None, lon = None, last_problem_summary = None\<rparr>"
proof -
  have "find (\<lambda>f. fid f = next_id rows) rows = None"
    using next_id_unused [of _ rows] by (fastforce simp: find_None_iff)
  then show ?thesis
    by (simp add: query_get_def add_farmer_def find_append_row)
qed

lemma happy_path_steps:
  assumes "sid \<noteq> []" and "strip q1 \<noteq> []" and "strip q2 \<noteq> []"
    and "parse_name_address e2 (strip q1) = (nm, addr)"
    and "filter_by_first nm addr (farmers st) = None"
    and "geolocator_geocode e3 addr = Some (x, y)" and "x \<noteq> 0" and "y \<noteq> 0"
    and "\<And>la lo lg. open_meteo e3 la lo lg \<noteq> OtherException"
    and "\<And>la lo lg. soilgrids e3 la lo lg \<noteq> OtherException"
  shows "let st1 = fst (start_session e1 st (Some sid) l);
             st2 = fst (handle_conversation e2 st1 (Some sid) (Some (Json_str q1)));
             st3 = fst (handle_conversation e3 st2 (Some sid) (Some (Json_str q2)))
         in map_option step (session_states st1 sid) = Some 1 \<and>
            map_option step (session_states st2 sid) = Some 2 \<and>
            map_option step (session_states st3 sid) = Some 4"
proof -
  define lg where "lg = (case l of None \<Rightarrow> ascii ''hi'' | Some x \<Rightarrow> x)"
  define sd1 where
    "sd1 = (case session_states st sid of None \<Rightarrow> new_session | Some sd \<Rightarrow> sd)
             \<lparr>lang := lg, step := 1\<rparr>"
  define st1 where "st1 = set_session st sid sd1"
  define sd2 where
    "sd2 = sd1\<lparr>name := Some nm, address := Some addr, step := 2,
               farmer_id := Some (next_id (farmers st))\<rparr>"
  define st2 where
    "st2 = set_session (st1\<lparr>farmers := add_farmer nm addr lg (farmers st)\<rparr>) sid sd2"
  define row where
    "row = \<lparr>fid = next_id (farmers st), fname = nm, faddress = addr, language = Some lg,
            lat = None, lon = None, last_problem_summary = None\<rparr>"
  have a: "fst (start_session e1 st (Some sid) l) = st1"
    using assms(1) by (simp add: start_session_accepted st1_def sd1_def lg_def)
  have s1: "session_states st1 sid = Some sd1" "step sd1 = 1" "lang sd1 = lg"
    "farmers st1 = farmers st"
    by (simp_all add: st1_def sd1_def)
  have b: "fst (handle_conversation e2 st1 (Some sid) (Some (Json_str q1))) = st2"
    using step_1_turn [OF s1(1) s1(2) assms(1) assms(2), of e2]
      step_1_new [of e2 "strip q1" nm addr st1 sid sd1] assms(4,5) s1
    by (simp add: Let_def st2_def sd2_def)
  have s2: "session_states st2 sid = Some sd2" "step sd2 = 2"
    "query_get (farmer_id sd2) (farmers st2) = Some row" "faddress row = addr"
    by (simp_all add: st2_def sd2_def row_def query_get_new_row)
  have geo: "geocode_address e3 (faddress row) = (Some x, Some y)"
    using assms(6) s2(4) by (simp add: geocode_address_def)
  have t: "truthy_float (Some x)" "truthy_float (Some y)"
    using assms(7,8) by (simp_all add: truthy_float_def)
  obtain weather_info soil_info where
    p: "get_current_weather e3 (Some x) (Some y) (lang sd2) = Some weather_info"
       "get_soil_data e3 (Some x) (Some y) (lang sd2) = Some soil_info"
    using assms(9,10) provider_result [of e3 "Some x" "Some y" "lang sd2"]
    by (cases "get_current_weather e3 (Some x) (Some y) (lang sd2)";
        cases "get_soil_data e3 (Some x) (Some y) (lang sd2)") auto
  have c: "map_option step
             (session_states (fst (handle_conversation e3 st2 (Some sid) (Some (Json_str q2)))) sid)
           = Some 4"
    using geocoding_success_turn [OF s2(1) s2(2) assms(1) assms(3) s2(3) geo t]
      get_api_advice_known [OF _ p]
    by simp
  show ?thesis
    unfolding Let_def a b using s1 s2 c by simp
qed

subsection \<open>The edges that announce step 1\<close>

text \<open>
  C1. Of the three edges that the specification sends back to step 1, only the failed
  geocoding stores step 1 (\<open>geocoding_failure_turn\<close>). The other two put
  \<open>next_step\<close> 1 in the reply and leave another step in the session
  (\<open>missing_identity_turn\<close>, \<open>missing_coordinates_turn\<close>). Here both are run: a process
  that starts on a table in which Ravi has a problem summary and no coordinates serves
  \<open>start_session\<close>, then \<open>Ravi, Pune\<close>, then \<open>weather\<close>, and the session is at step 3
  before and after the reply that says step 1; and a session at step 2 whose farmer id 7
  is in no row gets the reply with \<open>next_step\<close> 1 and is stored with step 3.
\<close>

theorem announced_step_1_is_not_stored:
  "map_option step (session_states
     (run (fresh [ravi None None (Some (ascii ''blight''))])
        [Start offline (Some (ascii ''s1'')) (Some (ascii ''en'')),
         Chat offline (Some (ascii ''s1'')) (Some (Json_str (ascii ''Ravi, Pune'')))]) (ascii ''s1'')) = Some 3 \<and>
   snd (serve
     (run (fresh [ravi None None (Some (ascii ''blight''))])
        [Start offline (Some (ascii ''s1'')) (Some (ascii ''en'')),
         Chat offline (Some (ascii ''s1'')) (Some (Json_str (ascii ''Ravi, Pune'')))])
     (Chat offline (Some (ascii ''s1'')) (Some (Json_str (ascii ''weather'')))))
     = Json_400_text provide_address_en 1 \<and>
   map_option step (session_states
     (run (fresh [ravi None None (Some (ascii ''blight''))])
        [Start offline (Some (ascii ''s1'')) (Some (ascii ''en'')),
         Chat offline (Some (ascii ''s1'')) (Some (Json_str (ascii ''Ravi, Pune''))),
         Chat offline (Some (ascii ''s1'')) (Some (Json_str (ascii ''weather'')))]) (ascii ''s1'')) = Some 3 \<and>
   (\<exists>url. snd (serve (one_session (ascii ''s1'') (in_step 2 (Some 7)) [])
                 (Chat offline (Some (ascii ''s1'')) (Some (Json_str (ascii ''blight'')))))
           = Json_200 farmer_not_found_en url 1) \<and>
   map_option step (session_states
     (fst (serve (one_session (ascii ''s1'') (in_step 2 (Some 7)) [])
             (Chat offline (Some (ascii ''s1'')) (Some (Json_str (ascii ''blight''))))))
     (ascii ''s1'')) = Some 3"
proof -
  let ?rows = "[ravi None None (Some (ascii ''blight''))]"
  let ?sid = "ascii ''s1''"
  let ?sd1 = "new_session\<lparr>lang := ascii ''en'', step := 1\<rparr>"
  let ?sd2 = "?sd1\<lparr>name := Some (ascii ''Ravi''), address := Some (ascii ''Pune''),
                  farmer_id := Some 1, step := 3\<rparr>"
  let ?sd3 = "(in_step 2 (Some 7))\<lparr>problem_text := Some (ascii ''blight''), step := 3\<rparr>"
  have a: "fst (serve (fresh ?rows) (Start offline (Some ?sid) (Some (ascii ''en''))))
             = one_session ?sid ?sd1 ?rows"
    by (simp add: start_session_accepted fresh_def one_session_def set_session_def)
  have found: "filter_by_first (ascii ''Ravi'') (ascii ''Pune'')
                 (farmers (one_session ?sid ?sd1 ?rows))
                 = Some (ravi None None (Some (ascii ''blight'')))"
    by (simp add: filter_by_first_def one_session_def ravi_def)
  have b: "fst (serve (one_session ?sid ?sd1 ?rows)
                  (Chat offline (Some ?sid) (Some (Json_str (ascii ''Ravi, Pune'')))))
             = one_session ?sid ?sd2 ?rows"
    using step_1_turn [of "one_session ?sid ?sd1 ?rows" ?sid ?sd1 "ascii ''Ravi, Pune''" offline]
      step_1_found [OF parse_ravi found, of ?sid ?sd1]
    by (simp add: one_session_def new_session_def Let_def ravi_def truthy_str_def format_str_def
        set_session_def strip_def isspace_def)
  have c: "serve (one_session ?sid ?sd2 ?rows) (Chat offline (Some ?sid) (Some (Json_str (ascii ''weather''))))
             = (one_session ?sid ?sd2 ?rows, Json_400_text provide_address_en 1)"
    using missing_coordinates_turn
      [of "one_session ?sid ?sd2 ?rows" ?sid ?sd2 "ascii ''weather''" offline]
    by (simp add: one_session_def new_session_def query_get_def ravi_def truthy_float_def
        strip_def isspace_def)
  have d: "serve (one_session ?sid (in_step 2 (Some 7)) [])
             (Chat offline (Some ?sid) (Some (Json_str (ascii ''blight''))))
           = (one_session ?sid ?sd3 [],
              Json_200 farmer_not_found_en
                (replace (ascii ''static/'') (ascii ''/audio/'')
                   (ascii ''static/audio/response_'' @ ?sid @ ascii ''.mp3'')) 1)"
    using missing_identity_turn
      [of "one_session ?sid (in_step 2 (Some 7)) []" ?sid "in_step 2 (Some 7)" "ascii ''blight''"
          offline]
    by (simp add: one_session_def in_step_def query_get_def set_session_def strip_def
        isspace_def jsonify_reply_def translate_and_tts_offline)
  have r2: "run (fresh ?rows)
              [Start offline (Some ?sid) (Some (ascii ''en'')),
               Chat offline (Some ?sid) (Some (Json_str (ascii ''Ravi, Pune'')))]
            = one_session ?sid ?sd2 ?rows"
    by (simp only: run.simps a b)
  have r3: "run (fresh ?rows)
              [Start offline (Some ?sid) (Some (ascii ''en'')),
               Chat offline (Some ?sid) (Some (Json_str (ascii ''Ravi, Pune''))),
               Chat offline (Some ?sid) (Some (Json_str (ascii ''weather'')))]
            = one_session ?sid ?sd2 ?rows"
    by (simp only: run.simps a b c fst_conv)
  have s2: "map_option step (session_states (one_session ?sid ?sd2 ?rows) ?sid) = Some 3"
    by (simp add: one_session_def)
  have s3: "map_option step (session_states (one_session ?sid ?sd3 []) ?sid) = Some 3"
    by (simp add: one_session_def)
  show ?thesis
    unfolding r2 r3 c d fst_conv snd_conv s2 s3 by blast
qed

end
